theory Spec2Isabelle
  imports Complex_Main
begin

section \<open>JavaScript numbers\<close>

text \<open>
  The service computes with JavaScript numbers.  Three of their effects decide claims
  about this code: a division by zero does not raise but yields an infinity or NaN,
  NaN propagates through arithmetic and through \<open>Math.max\<close> / \<open>Math.min\<close>, and every
  comparison with NaN is false.  The model keeps exactly these: a number is a real, one
  of the two infinities, or NaN.  Rounding error of the binary representation is not
  modelled (finite arithmetic is exact), and the two zeros are identified; every zero
  divisor that occurs in the service is a sum, a square root or a product of
  non-negative numbers, hence the positive zero that the division below assumes.
\<close>

datatype jsnum = Fin real | PosInf | NegInf | NaN

fun jadd :: "jsnum \<Rightarrow> jsnum \<Rightarrow> jsnum" where
  "jadd (Fin a) (Fin b) = Fin (a + b)"
| "jadd NaN _ = NaN"
| "jadd _ NaN = NaN"
| "jadd PosInf NegInf = NaN"
| "jadd NegInf PosInf = NaN"
| "jadd PosInf _ = PosInf"
| "jadd _ PosInf = PosInf"
| "jadd NegInf _ = NegInf"
| "jadd _ NegInf = NegInf"

fun jneg :: "jsnum \<Rightarrow> jsnum" where
  "jneg (Fin a) = Fin (- a)"
| "jneg PosInf = NegInf"
| "jneg NegInf = PosInf"
| "jneg NaN = NaN"

definition jsub :: "jsnum \<Rightarrow> jsnum \<Rightarrow> jsnum" where
  "jsub a b = jadd a (jneg b)"

text \<open>The sign of a number that is not NaN: \<open>-1\<close>, \<open>0\<close> or \<open>1\<close>.\<close>

fun jsign :: "jsnum \<Rightarrow> int" where
  "jsign (Fin a) = (if a < 0 then - 1 else if a = 0 then 0 else 1)"
| "jsign PosInf = 1"
| "jsign NegInf = - 1"
| "jsign NaN = 0"

definition signedInf :: "int \<Rightarrow> jsnum" where
  "signedInf s = (if s = 0 then NaN else if 0 < s then PosInf else NegInf)"

fun jmul :: "jsnum \<Rightarrow> jsnum \<Rightarrow> jsnum" where
  "jmul (Fin a) (Fin b) = Fin (a * b)"
| "jmul NaN _ = NaN"
| "jmul _ NaN = NaN"
| "jmul x y = signedInf (jsign x * jsign y)"

fun jdiv :: "jsnum \<Rightarrow> jsnum \<Rightarrow> jsnum" where
  "jdiv (Fin a) (Fin b) =
     (if b = 0 then (if a = 0 then NaN else if 0 < a then PosInf else NegInf)
      else Fin (a / b))"
| "jdiv NaN _ = NaN"
| "jdiv _ NaN = NaN"
| "jdiv (Fin a) _ = Fin 0"
| "jdiv x (Fin b) = (if 0 \<le> b then x else jneg x)"
| "jdiv _ _ = NaN"

fun jsqrt :: "jsnum \<Rightarrow> jsnum" where
  "jsqrt (Fin a) = (if a < 0 then NaN else Fin (sqrt a))"
| "jsqrt PosInf = PosInf"
| "jsqrt NegInf = NaN"
| "jsqrt NaN = NaN"

fun jabs :: "jsnum \<Rightarrow> jsnum" where
  "jabs (Fin a) = Fin \<bar>a\<bar>"
| "jabs PosInf = PosInf"
| "jabs NegInf = PosInf"
| "jabs NaN = NaN"

text \<open>\<open>a < b\<close>, \<open>a > b\<close>, \<open>a >= b\<close> and \<open>a === b\<close>: false as soon as one side is NaN.\<close>

fun jlt :: "jsnum \<Rightarrow> jsnum \<Rightarrow> bool" where
  "jlt (Fin a) (Fin b) = (a < b)"
| "jlt NaN _ = False"
| "jlt _ NaN = False"
| "jlt NegInf NegInf = False"
| "jlt NegInf _ = True"
| "jlt _ NegInf = False"
| "jlt PosInf _ = False"
| "jlt _ PosInf = True"

definition jgt :: "jsnum \<Rightarrow> jsnum \<Rightarrow> bool" where
  "jgt a b = jlt b a"

definition jeq :: "jsnum \<Rightarrow> jsnum \<Rightarrow> bool" where
  "jeq a b = (a \<noteq> NaN \<and> a = b)"

definition jge :: "jsnum \<Rightarrow> jsnum \<Rightarrow> bool" where
  "jge a b = (jgt a b \<or> jeq a b)"

text \<open>\<open>Math.max\<close> and \<open>Math.min\<close> of two arguments: NaN when either argument is NaN.\<close>

definition jmax :: "jsnum \<Rightarrow> jsnum \<Rightarrow> jsnum" where
  "jmax a b = (if a = NaN \<or> b = NaN then NaN else if jlt a b then b else a)"

definition jmin :: "jsnum \<Rightarrow> jsnum \<Rightarrow> jsnum" where
  "jmin a b = (if a = NaN \<or> b = NaN then NaN else if jlt b a then b else a)"

text \<open>\<open>Math.round\<close>: the nearest integer, a tie going up; NaN and the infinities stay.\<close>

fun jround :: "jsnum \<Rightarrow> jsnum" where
  "jround (Fin a) = Fin (of_int \<lfloor>a + 1 / 2\<rfloor>)"
| "jround x = x"

definition ofInt :: "int \<Rightarrow> jsnum" where
  "ofInt k = Fin (of_int k)"

definition ofNat :: "nat \<Rightarrow> jsnum" where
  "ofNat n = Fin (of_nat n)"

section \<open>Errors\<close>

text \<open>
  Every \<open>throw\<close> of the service and of the libraries it calls is a value of this type;
  an operation returns \<open>Inl\<close> of the error or \<open>Inr\<close> of its result.
  \<^item> \<open>ProductNotFound\<close>: \<open>new Error('Product not found')\<close>;
  \<^item> \<open>ModelNotFound\<close>: \<open>new Error('Model not found for category')\<close>;
  \<^item> \<open>ReferenceError x\<close>: the identifier \<open>x\<close> is read where no binding of it is in scope;
  \<^item> \<open>StatsError\<close>: the statistics library is given an empty array;
  \<^item> \<open>TrainingError\<close>: the tensor library rejects while fitting.
\<close>

datatype error =
    ProductNotFound
  | ModelNotFound
  | ReferenceError string
  | StatsError
  | TrainingError

section \<open>The statistics and regression libraries\<close>

text \<open>
  Modelled from the spec: the mean, the standard deviation and the ordinary-least-squares
  slope that the service takes from its libraries.  \<open>ss.mean\<close>, \<open>ss.standardDeviation\<close>
  (package simple-statistics) and the slope of \<open>SimpleLinearRegression\<close> (package
  ml-regression) are not part of the repository; they are modelled by what they
  compute.  The mean is sum over length and throws on an empty array; the standard
  deviation is the population one (the square root of the mean squared deviation), \<open>0\<close>
  for a single value, and throws on an empty array.  The library's compensated summation
  equals the plain sum in exact arithmetic.
\<close>

definition ss_sum :: "jsnum list \<Rightarrow> jsnum" where
  "ss_sum xs = foldl jadd (Fin 0) xs"

definition ss_mean :: "jsnum list \<Rightarrow> error + jsnum" where
  "ss_mean xs = (if xs = [] then Inl StatsError else Inr (jdiv (ss_sum xs) (ofNat (length xs))))"

definition ss_variance :: "jsnum list \<Rightarrow> error + jsnum" where
  "ss_variance xs =
     (case ss_mean xs of
        Inl e \<Rightarrow> Inl e
      | Inr m \<Rightarrow>
          Inr (jdiv (ss_sum (map (\<lambda>x. jmul (jsub x m) (jsub x m)) xs)) (ofNat (length xs))))"

definition ss_standardDeviation :: "jsnum list \<Rightarrow> error + jsnum" where
  "ss_standardDeviation xs =
     (if length xs = 1 then Inr (Fin 0)
      else case ss_variance xs of Inl e \<Rightarrow> Inl e | Inr v \<Rightarrow> Inr (jsqrt v))"

text \<open>
  The least-squares slope as the regression library accumulates it:
  \<open>(n * xY - xSum * ySum) / (n * xSquared - xSum * xSum)\<close>.
\<close>

definition slr_slope :: "jsnum list \<Rightarrow> jsnum list \<Rightarrow> jsnum" where
  "slr_slope xs ys =
     (let n = ofNat (length xs);
          xSum = ss_sum xs;
          ySum = ss_sum ys;
          xSquared = ss_sum (map (\<lambda>x. jmul x x) xs);
          xY = ss_sum (map (\<lambda>(x, y). jmul x y) (zip xs ys))
      in jdiv (jsub (jmul n xY) (jmul xSum ySum)) (jsub (jmul n xSquared) (jmul xSum xSum)))"

section \<open>Data model\<close>

text \<open>
  A calendar day is its number of days since 1970-01-01; the ISO date string that the
  source stores in \<open>date\<close> fields (the date part of \<open>toISOString\<close>, a UTC date) is in
  one-to-one correspondence with it.
\<close>

record DemandObservation =
  date :: int
  demand :: int
  dayOfWeek :: nat
  dayOfMonth :: nat
  month :: nat
  isWeekend :: bool

datatype level = LOW | MEDIUM | HIGH

record Anomaly =
  a_date :: int
  actualDemand :: jsnum
  expectedDemand :: jsnum
  anomalyScore :: jsnum
  severity :: level

record AnomalyDetection =
  ad_productId :: string
  anomalies :: "Anomaly list"

definition demandsOf :: "DemandObservation list \<Rightarrow> jsnum list" where
  "demandsOf historicalData = map (\<lambda>d. ofInt (demand d)) historicalData"

section \<open>Neural forecaster: confidence of one prediction\<close>

text \<open>\<open>calculatePredictionConfidence\<close>, lines 376 to 386 of aiService.ts.\<close>

definition calculatePredictionConfidence :: "jsnum \<Rightarrow> DemandObservation list \<Rightarrow> error + jsnum" where
  "calculatePredictionConfidence prediction historicalData =
     (let demands = demandsOf historicalData in
      case ss_mean demands of
        Inl e \<Rightarrow> Inl e
      | Inr mean \<Rightarrow>
          (case ss_standardDeviation demands of
             Inl e \<Rightarrow> Inl e
           | Inr stdDev \<Rightarrow>
               (let deviation = jabs (jsub prediction mean);
                    normalizedDeviation = (if jeq stdDev (Fin 0) then Fin 0 else jdiv deviation stdDev)
                in Inr (jmax (Fin 0.3) (jmin (Fin 0.95) (jsub (Fin 1) (jmul normalizedDeviation (Fin 0.1))))))))"

section \<open>Anomaly detector\<close>

text \<open>
  The loop of \<open>detectAnomalies\<close> (lines 498 to 515) over the indices still to visit;
  \<open>demands.slice(i - 7, i)\<close> is \<open>take 7 (drop (i - 7) demands)\<close>.
\<close>

fun anomalyLoop :: "DemandObservation list \<Rightarrow> jsnum list \<Rightarrow> jsnum \<Rightarrow> nat list \<Rightarrow> error + Anomaly list" where
  "anomalyLoop historicalData demands stdDev [] = Inr []"
| "anomalyLoop historicalData demands stdDev (i # rest) =
     (case ss_mean (take 7 (drop (i - 7) demands)) of
        Inl e \<Rightarrow> Inl e
      | Inr recentAvg \<Rightarrow>
          (let currentDemand = demands ! i;
               zScore = (if jeq stdDev (Fin 0) then Fin 0
                         else jdiv (jabs (jsub currentDemand recentAvg)) stdDev)
           in case anomalyLoop historicalData demands stdDev rest of
                Inl e \<Rightarrow> Inl e
              | Inr found \<Rightarrow>
                  Inr (if jgt zScore (Fin 2)
                       then \<lparr>a_date = date (historicalData ! i),
                             actualDemand = currentDemand,
                             expectedDemand = jround recentAvg,
                             anomalyScore = jdiv (jround (jmul zScore (Fin 100))) (Fin 100),
                             severity = (if jgt zScore (Fin 3) then HIGH
                                         else if jgt zScore (Fin 2.5) then MEDIUM else LOW)\<rparr> # found
                       else found)))"

text \<open>
  The body of \<open>detectAnomalies\<close> once the 90-day series is built (lines 487 to 517).
\<close>

definition detectAnomaliesIn :: "string \<Rightarrow> DemandObservation list \<Rightarrow> error + AnomalyDetection" where
  "detectAnomaliesIn productId historicalData =
     (let demands = demandsOf historicalData in
      if length demands < 14 then Inr \<lparr>ad_productId = productId, anomalies = []\<rparr>
      else case ss_mean demands of
        Inl e \<Rightarrow> Inl e
      | Inr mean \<Rightarrow>
          (case ss_standardDeviation demands of
             Inl e \<Rightarrow> Inl e
           | Inr stdDev \<Rightarrow>
               (case anomalyLoop historicalData demands stdDev [7..<length historicalData] of
                  Inl e \<Rightarrow> Inl e
                | Inr found \<Rightarrow> Inr \<lparr>ad_productId = productId, anomalies = found\<rparr>)))"

section \<open>Clock, time zone and calendar\<close>

text \<open>
  Instants are milliseconds since the epoch.  Every \<open>new Date()\<close> reads the clock
  again: an operation is given the sequence \<open>reads\<close> of the instants that its successive
  \<open>new Date()\<close> expressions return, numbered from 0 in the order of execution, and
  \<open>later n reads\<close> is that sequence after the first \<open>n\<close> reads.
\<close>

type_synonym clock = "nat \<Rightarrow> int"

definition later :: "nat \<Rightarrow> clock \<Rightarrow> clock" where
  "later n reads = (\<lambda>k. reads (n + k))"

definition msPerDay :: int where
  "msPerDay = 86400000"

text \<open>\<open>toISOString().split('T')[0]\<close>: the UTC day of an instant.\<close>

definition dayOf :: "int \<Rightarrow> int" where
  "dayOf t = t div msPerDay"

text \<open>
  The time zone of the process, as the language defines it: the offset of local time
  from UTC at a UTC instant, and the offset that belongs to a local time value.
  \<open>localTime\<close> is the local time value of an instant.  \<open>setDateBy tz t k\<close> is the instant
  held by a \<open>Date\<close> of instant \<open>t\<close> after \<open>d.setDate(d.getDate() + k)\<close>: the local time
  value moves by \<open>k\<close> whole days, keeping the local time of day, and is converted back
  to UTC with the offset of the new local time.
\<close>

record timeZone =
  offsetAtUTC :: "int \<Rightarrow> int"
  offsetAtLocal :: "int \<Rightarrow> int"

definition localTime :: "timeZone \<Rightarrow> int \<Rightarrow> int" where
  "localTime tz t = t + offsetAtUTC tz t"

definition setDateBy :: "timeZone \<Rightarrow> int \<Rightarrow> int \<Rightarrow> int" where
  "setDateBy tz t k =
     (let shifted = localTime tz t + k * msPerDay in shifted - offsetAtLocal tz shifted)"

text \<open>
  The calendar of a day number (proleptic Gregorian calendar): the day of the week with
  Sunday as 0, and the month (from 0) with the day of the month.
\<close>

definition weekdayOf :: "int \<Rightarrow> nat" where
  "weekdayOf d = nat ((d + 4) mod 7)"

definition civil :: "int \<Rightarrow> int \<times> int" where
  "civil d =
     (let z = d + 719468;
          era = z div 146097;
          doe = z - era * 146097;
          yoe = (doe - doe div 1460 + doe div 36524 - doe div 146096) div 365;
          doy = doe - (365 * yoe + yoe div 4 - yoe div 100);
          mp = (5 * doy + 2) div 153
      in (if mp < 10 then mp + 2 else mp - 10, doy - (153 * mp + 2) div 5 + 1))"

text \<open>
  \<open>getDay()\<close>, \<open>getMonth()\<close> and \<open>getDate()\<close> of a \<open>Date\<close> holding an instant: the
  calendar fields of its local day.
\<close>

definition getDay :: "timeZone \<Rightarrow> int \<Rightarrow> nat" where
  "getDay tz t = weekdayOf (dayOf (localTime tz t))"

definition getMonth :: "timeZone \<Rightarrow> int \<Rightarrow> nat" where
  "getMonth tz t = nat (fst (civil (dayOf (localTime tz t))))"

definition getDate :: "timeZone \<Rightarrow> int \<Rightarrow> nat" where
  "getDate tz t = nat (snd (civil (dayOf (localTime tz t))))"

section \<open>Persistent state and collaborators\<close>

datatype MovementType = IN | OUT | ADJUSTMENT

record StockMovement =
  m_productId :: string
  movementType :: MovementType
  quantity :: int
  createdAt :: int

text \<open>
  \<open>unitPrice\<close> is a nullable decimal column (\<open>Decimal?\<close> in the schema): the database
  client returns \<open>null\<close> or a decimal object, which the service converts with
  \<open>Number(...)\<close>.
\<close>

record Product =
  p_id :: string
  p_currentStock :: int
  unitPrice :: "real option"
  categoryId :: string

datatype modelType = STATISTICAL | NEURAL_NETWORK

record ForecastPoint =
  fp_date :: int
  predictedDemand :: jsnum
  confidence :: jsnum
  upperBound :: jsnum
  lowerBound :: jsnum

record ForecastResult =
  productId :: string
  predictions :: "ForecastPoint list"
  accuracy :: jsnum
  modelType :: modelType

record OptimizationResult =
  o_productId :: string
  currentStock :: int
  optimalStock :: jsnum
  reorderPoint :: jsnum
  expectedSavings :: jsnum
  riskLevel :: level

text \<open>
  What the service reads and writes outside its own locals: the product and movement
  tables, the forecast cache (key \<open>forecast:productId:days\<close>; an entry stands for
  the forecast whose serialisation is stored) and the per-category model registry
  \<open>this.models\<close>.  \<open>'m\<close> is the type of a trainable model.
\<close>

record 'm world =
  products :: "string \<rightharpoonup> Product"
  movements :: "StockMovement list"
  cache :: "string \<times> nat \<rightharpoonup> ForecastResult"
  models :: "string \<rightharpoonup> 'm"

text \<open>
  The tensor library: \<open>fit\<close> trains a model on inputs and labels and may reject;
  \<open>predict\<close> is the first output of the model on one feature vector.
\<close>

record 'm tfjs =
  fit :: "'m \<Rightarrow> jsnum list list \<Rightarrow> jsnum list \<Rightarrow> error + 'm"
  predict :: "'m \<Rightarrow> jsnum list \<Rightarrow> jsnum"

section \<open>Demand series builder\<close>

text \<open>\<open>getHistoricalDemandData\<close>, lines 142 to 182.\<close>

definition findOutMovements :: "'m world \<Rightarrow> string \<Rightarrow> int \<Rightarrow> StockMovement list" where
  "findOutMovements w pid startDate =
     sort_key createdAt
       (filter (\<lambda>m. m_productId m = pid \<and> movementType m = OUT \<and> startDate \<le> createdAt m)
          (movements w))"

text \<open>\<open>dailyDemand.get(key) || 0\<close>.\<close>

definition getOrZero :: "(int \<rightharpoonup> int) \<Rightarrow> int \<Rightarrow> int" where
  "getOrZero dailyDemand key = (case dailyDemand key of None \<Rightarrow> 0 | Some c \<Rightarrow> c)"

definition addMovement :: "(int \<rightharpoonup> int) \<Rightarrow> StockMovement \<Rightarrow> (int \<rightharpoonup> int)" where
  "addMovement dailyDemand movement =
     (let day = dayOf (createdAt movement);
          current = getOrZero dailyDemand day
      in dailyDemand(day \<mapsto> current + \<bar>quantity movement\<bar>))"

text \<open>
  The clock is read once for \<open>startDate\<close> (line 143) and once in every pass of the loop
  (line 167); pass number \<open>k\<close>, counted from 0, has the loop variable \<open>i = days - 1 - k\<close>.
  Each entry is dated by the UTC date of the instant that \<open>setDate\<close> produced in local
  time (lines 168 and 169).
\<close>

definition getHistoricalDemandData ::
  "timeZone \<Rightarrow> clock \<Rightarrow> 'm world \<Rightarrow> string \<Rightarrow> nat \<Rightarrow> DemandObservation list" where
  "getHistoricalDemandData tz reads w pid days =
     (let startDate = setDateBy tz (reads 0) (- int days);
          dailyDemand = foldl addMovement Map.empty (findOutMovements w pid startDate)
      in map (\<lambda>k. let i = days - Suc k;
                      d = setDateBy tz (reads (Suc k)) (- int i)
                  in \<lparr>date = dayOf d,
                      demand = getOrZero dailyDemand (dayOf d),
                      dayOfWeek = getDay tz d,
                      dayOfMonth = getDate tz d,
                      month = getMonth tz d,
                      isWeekend = (getDay tz d = 0 \<or> getDay tz d = 6)\<rparr>)
           [0..<days])"

section \<open>Statistical forecaster\<close>

text \<open>\<open>calculateTrend\<close>, lines 350 to 356.\<close>

definition calculateTrend :: "jsnum list \<Rightarrow> jsnum" where
  "calculateTrend demands =
     (if length demands < 2 then Fin 0
      else slr_slope (map ofNat [0..<length demands]) demands)"

text \<open>
  \<open>getSeasonalFactor\<close>, lines 358 to 374; \<open>now\<close> is the instant of its \<open>new Date()\<close>.
  \<open>new Date(d.date)\<close> is midnight UTC of the day \<open>d.date\<close>.
\<close>

definition getSeasonalFactor ::
  "timeZone \<Rightarrow> int \<Rightarrow> nat \<Rightarrow> DemandObservation list \<Rightarrow> error + jsnum" where
  "getSeasonalFactor tz now dayOffset historicalData =
     (let weekday = getDay tz (setDateBy tz now (int dayOffset));
          sameDayDemands =
            demandsOf (filter (\<lambda>d. getDay tz (date d * msPerDay) = weekday) historicalData)
      in if sameDayDemands = [] then Inr (Fin 1)
         else case ss_mean sameDayDemands of
           Inl e \<Rightarrow> Inl e
         | Inr avgSameDayDemand \<Rightarrow>
             (case ss_mean (demandsOf historicalData) of
                Inl e \<Rightarrow> Inl e
              | Inr overallAverage \<Rightarrow>
                  Inr (if jeq overallAverage (Fin 0) then Fin 1
                       else jdiv avgSameDayDemand overallAverage)))"

text \<open>
  The prediction loop of \<open>generateStatisticalForecast\<close> (lines 201 to 222): \<open>i\<close> is the
  loop counter and the last argument the number of iterations left.  \<open>confidence\<close> is
  declared by \<open>const\<close> inside the loop body.  Pass \<open>i\<close> reads the clock twice: in
  \<open>getSeasonalFactor\<close> and for the date of the point (line 212).
\<close>

fun statisticalLoop ::
  "timeZone \<Rightarrow> clock \<Rightarrow> DemandObservation list \<Rightarrow> jsnum \<Rightarrow> jsnum \<Rightarrow> jsnum \<Rightarrow> jsnum \<Rightarrow> nat \<Rightarrow> nat
   \<Rightarrow> error + ForecastPoint list" where
  "statisticalLoop tz reads historicalData recentAverage trend mean stdDev i 0 = Inr []"
| "statisticalLoop tz reads historicalData recentAverage trend mean stdDev i (Suc left) =
     (let trendAdjustment = jmul trend (ofNat (i + 1)) in
      case getSeasonalFactor tz (reads (2 * i)) i historicalData of
        Inl e \<Rightarrow> Inl e
      | Inr seasonalFactor \<Rightarrow>
          (let predicted = jmax (Fin 0) (jround (jmul (jadd recentAverage trendAdjustment) seasonalFactor));
               confidence = jmax (Fin 0.3) (jsub (Fin 1) (jdiv stdDev mean));
               margin = jmul stdDev (Fin 1.96);
               point = \<lparr>fp_date = dayOf (setDateBy tz (reads (2 * i + 1)) (int i + 1)),
                        predictedDemand = predicted,
                        confidence = jdiv (jround (jmul confidence (Fin 100))) (Fin 100),
                        upperBound = jround (jadd predicted margin),
                        lowerBound = jmax (Fin 0) (jround (jsub predicted margin))\<rparr>
           in case statisticalLoop tz reads historicalData recentAverage trend mean stdDev (Suc i) left of
                Inl e \<Rightarrow> Inl e
              | Inr points \<Rightarrow> Inr (point # points)))"

text \<open>
  The statements of \<open>generateStatisticalForecast\<close> up to the end of its loop (lines 189
  to 222): the value of the local \<open>predictions\<close>.
\<close>

definition statisticalPredictions ::
  "timeZone \<Rightarrow> clock \<Rightarrow> DemandObservation list \<Rightarrow> nat \<Rightarrow> error + ForecastPoint list" where
  "statisticalPredictions tz reads historicalData days =
     (let demands = demandsOf historicalData in
      case ss_mean demands of
        Inl e \<Rightarrow> Inl e
      | Inr mean \<Rightarrow>
          (case ss_standardDeviation demands of
             Inl e \<Rightarrow> Inl e
           | Inr stdDev \<Rightarrow>
               (let trend = calculateTrend demands;
                    windowSize = min 7 (length demands)
                in case ss_mean (drop (length demands - windowSize) demands) of
                     Inl e \<Rightarrow> Inl e
                   | Inr recentAverage \<Rightarrow>
                       statisticalLoop tz reads historicalData recentAverage trend mean stdDev 0 days)))"

text \<open>
  \<open>generateStatisticalForecast\<close>, lines 184 to 230.  The returned object literal reads
  \<open>accuracy: confidence\<close> (line 227) after the loop has ended, but the only declaration
  of \<open>confidence\<close> is the \<open>const\<close> of line 209, whose scope is the loop body; neither
  the method, the class, the module nor the runtime's globals bind that name.  Evaluating
  the literal therefore throws a ReferenceError, whatever the number of iterations.
\<close>

definition generateStatisticalForecast ::
  "timeZone \<Rightarrow> clock \<Rightarrow> string \<Rightarrow> DemandObservation list \<Rightarrow> nat \<Rightarrow> error + ForecastResult" where
  "generateStatisticalForecast tz reads pid historicalData days =
     (case statisticalPredictions tz reads historicalData days of
        Inl e \<Rightarrow> Inl e
      | Inr points \<Rightarrow> Inl (ReferenceError ''confidence''))"

section \<open>Neural forecaster\<close>

text \<open>\<open>prepareTrainingData\<close>, lines 305 to 328.\<close>

definition trainingFeatures :: "DemandObservation list \<Rightarrow> nat \<Rightarrow> jsnum list" where
  "trainingFeatures historicalData i =
     map (\<lambda>j. ofInt (demand (historicalData ! (i - j)))) (rev [1..<8])
     @ [ofNat (dayOfWeek (historicalData ! i)),
        ofNat (dayOfMonth (historicalData ! i)),
        ofNat (month (historicalData ! i))]"

definition prepareTrainingData :: "DemandObservation list \<Rightarrow> jsnum list list \<times> jsnum list" where
  "prepareTrainingData historicalData =
     (map (trainingFeatures historicalData) [10..<length historicalData],
      map (\<lambda>i. ofInt (demand (historicalData ! i))) [10..<length historicalData])"

text \<open>
  \<open>updateFeatures\<close>, lines 330 to 348, on the ten-element vectors built above; \<open>now\<close> is
  the instant of its \<open>new Date()\<close>.
\<close>

definition updateFeatures :: "timeZone \<Rightarrow> int \<Rightarrow> jsnum list \<Rightarrow> jsnum \<Rightarrow> nat \<Rightarrow> jsnum list" where
  "updateFeatures tz now features newDemand dayOffset =
     (let shifted = foldl (\<lambda>f i. f[i := f ! (i + 1)]) features [0..<6];
          futureDate = setDateBy tz now (int dayOffset)
      in (shifted[6 := newDemand])
           [7 := ofNat (getDay tz futureDate), 8 := ofNat (getDate tz futureDate),
            9 := ofNat (getMonth tz futureDate)])"

text \<open>\<open>calculateModelAccuracy\<close>, lines 388 to 415.\<close>

definition calculateModelAccuracy :: "'m tfjs \<Rightarrow> 'm \<Rightarrow> jsnum list list \<Rightarrow> jsnum list \<Rightarrow> jsnum" where
  "calculateModelAccuracy tf model inputs outputs =
     (if inputs = [] then Fin 0.5
      else
        (let predictionData = map (predict tf model) inputs;
             (totalError, validPredictions) =
               foldl (\<lambda>(total, valid) (out, pred).
                        if out \<noteq> Fin 0
                        then (jadd total (jabs (jdiv (jsub out pred) out)), Suc valid)
                        else (total, valid))
                 (Fin 0, 0) (zip outputs predictionData);
             mape = (if 0 < validPredictions then jdiv totalError (ofNat validPredictions) else Fin 1)
         in jmax (Fin 0) (jsub (Fin 1) mape)))"

text \<open>
  The roll-forward loop of \<open>generateNeuralNetworkForecast\<close>, lines 265 to 289.  Pass \<open>i\<close>
  reads the clock twice: for the date of the point (line 274) and in \<open>updateFeatures\<close>.
\<close>

fun neuralLoop ::
  "'m tfjs \<Rightarrow> 'm \<Rightarrow> timeZone \<Rightarrow> clock \<Rightarrow> DemandObservation list \<Rightarrow> jsnum list \<Rightarrow> nat \<Rightarrow> nat
   \<Rightarrow> error + ForecastPoint list" where
  "neuralLoop tf model tz reads historicalData lastFeatures i 0 = Inr []"
| "neuralLoop tf model tz reads historicalData lastFeatures i (Suc left) =
     (let predicted = jmax (Fin 0) (jround (predict tf model lastFeatures)) in
      case calculatePredictionConfidence predicted historicalData of
        Inl e \<Rightarrow> Inl e
      | Inr conf \<Rightarrow>
          (let margin = jmul predicted (Fin 0.2);
               point = \<lparr>fp_date = dayOf (setDateBy tz (reads (2 * i)) (int i + 1)),
                        predictedDemand = predicted,
                        confidence = conf,
                        upperBound = jround (jadd predicted margin),
                        lowerBound = jmax (Fin 0) (jround (jsub predicted margin))\<rparr>
           in case neuralLoop tf model tz reads historicalData
                     (updateFeatures tz (reads (2 * i + 1)) lastFeatures predicted (i + 1))
                     (Suc i) left of
                Inl e \<Rightarrow> Inl e
              | Inr points \<Rightarrow> Inr (point # points)))"

text \<open>
  \<open>generateNeuralNetworkForecast\<close>, lines 232 to 303.  Training mutates the registered
  model in place: the returned world holds the fitted model.
\<close>

definition generateNeuralNetworkForecast ::
  "'m tfjs \<Rightarrow> timeZone \<Rightarrow> clock \<Rightarrow> 'm world \<Rightarrow> Product \<Rightarrow> DemandObservation list \<Rightarrow> nat
   \<Rightarrow> error + ForecastResult \<times> 'm world" where
  "generateNeuralNetworkForecast tf tz reads w product historicalData days =
     (case models w (categoryId product) of
        None \<Rightarrow> Inl ModelNotFound
      | Some model \<Rightarrow>
          (let (inputs, outputs) = prepareTrainingData historicalData in
           if length inputs < 10
           then (case generateStatisticalForecast tz reads (p_id product) historicalData days of
                   Inl e \<Rightarrow> Inl e
                 | Inr forecast \<Rightarrow> Inr (forecast, w))
           else case fit tf model inputs outputs of
             Inl e \<Rightarrow> Inl e
           | Inr trained \<Rightarrow>
               (case neuralLoop tf trained tz reads historicalData (last inputs) 0 days of
                  Inl e \<Rightarrow> Inl e
                | Inr points \<Rightarrow>
                    Inr (\<lparr>productId = p_id product,
                          predictions = points,
                          accuracy = calculateModelAccuracy tf trained inputs outputs,
                          modelType = NEURAL_NETWORK\<rparr>,
                         w\<lparr>models := (models w)(categoryId product \<mapsto> trained)\<rparr>))))"

section \<open>Forecast orchestrator\<close>

text \<open>
  The forecaster selection of \<open>generateDemandForecast\<close> (lines 128 to 139), for a
  resolved product and a series already built.
\<close>

definition forecastFromHistory ::
  "'m tfjs \<Rightarrow> timeZone \<Rightarrow> clock \<Rightarrow> 'm world \<Rightarrow> string \<Rightarrow> Product \<Rightarrow> DemandObservation list \<Rightarrow> nat
   \<Rightarrow> error + ForecastResult \<times> 'm world" where
  "forecastFromHistory tf tz reads w pid product historicalData days =
     (if length historicalData < 30
      then (case generateStatisticalForecast tz reads pid historicalData days of
              Inl e \<Rightarrow> Inl e
            | Inr forecast \<Rightarrow> Inr (forecast, w))
      else case generateNeuralNetworkForecast tf tz reads w product historicalData days of
        Inl e \<Rightarrow> Inl e
      | Inr (forecast, w') \<Rightarrow> Inr (forecast, w'\<lparr>cache := (cache w')((pid, days) \<mapsto> forecast)\<rparr>))"

text \<open>
  \<open>generateDemandForecast\<close>, lines 108 to 140.  Building the 180-day series takes the
  first 181 reads of the clock; the forecaster reads on from there.
\<close>

definition generateDemandForecast ::
  "'m tfjs \<Rightarrow> timeZone \<Rightarrow> clock \<Rightarrow> 'm world \<Rightarrow> string \<Rightarrow> nat
   \<Rightarrow> error + ForecastResult \<times> 'm world" where
  "generateDemandForecast tf tz reads w pid days =
     (case cache w (pid, days) of
        Some cached \<Rightarrow> Inr (cached, w)
      | None \<Rightarrow>
          (case products w pid of
             None \<Rightarrow> Inl ProductNotFound
           | Some product \<Rightarrow>
               forecastFromHistory tf tz (later 181 reads) w pid product
                 (getHistoricalDemandData tz reads w pid 180) days))"

section \<open>Stock optimizer\<close>

text \<open>\<open>calculateDemandVariability\<close>, lines 470 to 473.\<close>

definition calculateDemandVariability :: "ForecastPoint list \<Rightarrow> error + jsnum" where
  "calculateDemandVariability points = ss_standardDeviation (map predictedDemand points)"

text \<open>\<open>calculateStockoutRisk\<close>, lines 475 to 483.\<close>

definition calculateStockoutRisk :: "jsnum \<Rightarrow> jsnum \<Rightarrow> jsnum \<Rightarrow> jsnum" where
  "calculateStockoutRisk stock avgDemand variability =
     (if jeq avgDemand (Fin 0) then Fin 0
      else
        (let daysOfStock = jdiv stock avgDemand;
             riskFactor = jdiv variability avgDemand
         in jmax (Fin 0) (jmin (Fin 1) (jdiv (jmul (jsub (Fin 7) daysOfStock) riskFactor) (Fin 7)))))"

text \<open>The average of line 430: the sum of the predicted demands over the constant 30.\<close>

definition averageDailyDemand :: "ForecastPoint list \<Rightarrow> jsnum" where
  "averageDailyDemand points =
     jdiv (foldl (\<lambda>sum p. jadd sum (predictedDemand p)) (Fin 0) points) (Fin 30)"

text \<open>
  The computation of \<open>optimizeStockLevels\<close> from the resolved product and its 30-day
  forecast (lines 429 to 467).  The test \<open>product.unitPrice ? ... : 10\<close> of line 436 is
  on a decimal object or \<open>null\<close>; an object is truthy whatever number it holds, so the
  default 10 is selected only when the price is absent, and a price of 0 gives the
  holding cost 0.
\<close>

definition optimizeFromForecast :: "string \<Rightarrow> Product \<Rightarrow> ForecastResult \<Rightarrow> error + OptimizationResult" where
  "optimizeFromForecast pid product forecast =
     (let avgDailyDemand = averageDailyDemand (predictions forecast);
          annualDemand = jmul avgDailyDemand (Fin 365);
          orderingCost = Fin 50;
          holdingCostRate = Fin 0.25;
          holdingCost = (case unitPrice product of
                           Some price \<Rightarrow> jmul (Fin price) holdingCostRate
                         | None \<Rightarrow> Fin 10);
          eoq = jsqrt (jdiv (jmul (jmul (Fin 2) annualDemand) orderingCost) holdingCost)
      in case calculateDemandVariability (predictions forecast) of
           Inl e \<Rightarrow> Inl e
         | Inr demandVariability \<Rightarrow>
             (let zScore = Fin 1.645;
                  leadTime = Fin 7;
                  safetyStock = jmul (jmul zScore (jsqrt leadTime)) demandVariability;
                  reorder = jadd (jmul avgDailyDemand leadTime) safetyStock;
                  optimal = jadd eoq safetyStock;
                  stock = ofInt (p_currentStock product);
                  currentHoldingCost = jmul (jdiv (jmul stock holdingCost) (Fin 365)) (Fin 30);
                  optimizedHoldingCost = jmul (jdiv (jmul optimal holdingCost) (Fin 365)) (Fin 30);
                  savings = jmax (Fin 0) (jsub currentHoldingCost optimizedHoldingCost);
                  stockoutRisk = calculateStockoutRisk stock avgDailyDemand demandVariability
              in Inr \<lparr>o_productId = pid,
                      currentStock = p_currentStock product,
                      optimalStock = jround optimal,
                      reorderPoint = jround reorder,
                      expectedSavings = jdiv (jround (jmul savings (Fin 100))) (Fin 100),
                      riskLevel = (if jgt stockoutRisk (Fin 0.2) then HIGH
                                   else if jgt stockoutRisk (Fin 0.1) then MEDIUM else LOW)\<rparr>))"

text \<open>\<open>optimizeStockLevels\<close>, lines 417 to 468.\<close>

definition optimizeStockLevels ::
  "'m tfjs \<Rightarrow> timeZone \<Rightarrow> clock \<Rightarrow> 'm world \<Rightarrow> string \<Rightarrow> error + OptimizationResult \<times> 'm world" where
  "optimizeStockLevels tf tz reads w pid =
     (case products w pid of
        None \<Rightarrow> Inl ProductNotFound
      | Some product \<Rightarrow>
          (case generateDemandForecast tf tz reads w pid 30 of
             Inl e \<Rightarrow> Inl e
           | Inr (forecast, w') \<Rightarrow>
               (case optimizeFromForecast pid product forecast of
                  Inl e \<Rightarrow> Inl e
                | Inr result \<Rightarrow> Inr (result, w'))))"

section \<open>Anomaly detection entry point\<close>

text \<open>\<open>detectAnomalies\<close>, lines 485 to 518.\<close>

definition detectAnomalies ::
  "timeZone \<Rightarrow> clock \<Rightarrow> 'm world \<Rightarrow> string \<Rightarrow> error + AnomalyDetection" where
  "detectAnomalies tz reads w pid = detectAnomaliesIn pid (getHistoricalDemandData tz reads w pid 90)"

section \<open>Reference quantities\<close>

text \<open>Mean and population standard deviation of a series, as real numbers.\<close>

definition histMean :: "DemandObservation list \<Rightarrow> real" where
  "histMean historicalData =
     sum_list (map (\<lambda>d. of_int (demand d)) historicalData) / of_nat (length historicalData)"

definition histStdDev :: "DemandObservation list \<Rightarrow> real" where
  "histStdDev historicalData =
     sqrt (sum_list (map (\<lambda>d. (of_int (demand d) - histMean historicalData)\<^sup>2) historicalData)
           / of_nat (length historicalData))"

text \<open>
  The sum of the absolute quantities of the outbound movements of a product that were
  created on a given day.
\<close>

definition outboundOnDay :: "'m world \<Rightarrow> string \<Rightarrow> int \<Rightarrow> int" where
  "outboundOnDay w pid day =
     sum_list (map (\<lambda>m. \<bar>quantity m\<bar>)
       (filter (\<lambda>m. m_productId m = pid \<and> movementType m = OUT \<and> dayOf (createdAt m) = day)
          (movements w)))"

text \<open>A number that is neither NaN nor an infinity; a finite number that is not negative.\<close>

fun isFinite :: "jsnum \<Rightarrow> bool" where
  "isFinite (Fin a) = True"
| "isFinite x = False"

fun finiteNonneg :: "jsnum \<Rightarrow> bool" where
  "finiteNonneg (Fin a) = (0 \<le> a)"
| "finiteNonneg x = False"

fun finVal :: "jsnum \<Rightarrow> real" where
  "finVal (Fin a) = a"
| "finVal x = 0"

text \<open>
  The predicted demands of a forecast as real numbers, and the yearly holding cost per
  unit that line 436 computes for a product.
\<close>

definition demandValues :: "ForecastPoint list \<Rightarrow> real list" where
  "demandValues points = map (\<lambda>p. finVal (predictedDemand p)) points"

definition holdingCostOf :: "Product \<Rightarrow> real" where
  "holdingCostOf product = (case unitPrice product of Some price \<Rightarrow> price * 0.25 | None \<Rightarrow> 10)"

section \<open>The confidence formula of the specification\<close>

text \<open>
  The specification's wording of the neural forecaster's point confidence, for a series
  of positive standard deviation \<open>\<sigma>\<close> and mean \<open>\<mu>\<close>:
  \<open>1 - min(1, |prediction - \<mu>| / \<sigma>) * 0.1\<close>, then floored at \<open>0.3\<close> and capped at \<open>0.95\<close>.
\<close>

definition spec_confidence :: "real \<Rightarrow> real \<Rightarrow> real \<Rightarrow> real" where
  "spec_confidence prediction \<mu> \<sigma> =
     min 0.95 (max 0.3 (1 - min 1 (\<bar>prediction - \<mu>\<bar> / \<sigma>) * 0.1))"

section \<open>Sample inputs\<close>

text \<open>An observation of a given UTC day with a given demand.\<close>

definition observation :: "int \<Rightarrow> int \<Rightarrow> DemandObservation" where
  "observation day q =
     \<lparr>date = day, demand = q, dayOfWeek = weekdayOf day, dayOfMonth = nat (snd (civil day)),
      month = nat (fst (civil day)), isWeekend = (weekdayOf day = 0 \<or> weekdayOf day = 6)\<rparr>"

text \<open>
  A process running in UTC whose clock stands at 5 seconds into day 10 during a call,
  and a small store: product \<open>p1\<close> of category \<open>c1\<close> has outbound movements on days 7
  and 9; the cache is empty, and no model is registered (the registry of a service
  instance on which \<open>initialize\<close> was not called).  The sample tensor library fits
  without change and predicts 12.
\<close>

definition utcZone :: timeZone where
  "utcZone = \<lparr>offsetAtUTC = (\<lambda>t. 0), offsetAtLocal = (\<lambda>t. 0)\<rparr>"

definition sampleNow :: int where
  "sampleNow = 10 * msPerDay + 5000"

definition sampleClock :: clock where
  "sampleClock = (\<lambda>k. sampleNow)"

text \<open>
  A process in the time zone Europe/London around the end of summer time in 2026: local
  time is one hour ahead of UTC before 2026-10-25T01:00Z and equal to UTC from then on;
  a local time value of the repeated hour takes the offset before the change.  The
  clock stands at 2026-10-26T00:30Z (day 20752), and the store holds one outbound
  movement of 9 units of \<open>p1\<close>, created at noon UTC of 2026-10-25 (day 20751).
\<close>

definition londonChange :: int where
  "londonChange = 20751 * msPerDay + 3600000"

definition londonZone :: timeZone where
  "londonZone =
     \<lparr>offsetAtUTC = (\<lambda>t. if t < londonChange then 3600000 else 0),
      offsetAtLocal = (\<lambda>t. if t < londonChange + 3600000 then 3600000 else 0)\<rparr>"

definition londonClock :: clock where
  "londonClock = (\<lambda>k. 20752 * msPerDay + 1800000)"

definition londonWorld :: "unit world" where
  "londonWorld =
     \<lparr>products = Map.empty,
      movements =
        [\<lparr>m_productId = ''p1'', movementType = OUT, quantity = 9,
          createdAt = 20751 * msPerDay + 43200000\<rparr>],
      cache = Map.empty,
      models = Map.empty\<rparr>"

definition sampleProduct :: Product where
  "sampleProduct = \<lparr>p_id = ''p1'', p_currentStock = 100, unitPrice = Some 8, categoryId = ''c1''\<rparr>"

definition sampleWorld :: "unit world" where
  "sampleWorld =
     \<lparr>products = [''p1'' \<mapsto> sampleProduct],
      movements =
        [\<lparr>m_productId = ''p1'', movementType = OUT, quantity = 6, createdAt = 7 * msPerDay + 100\<rparr>,
         \<lparr>m_productId = ''p1'', movementType = OUT, quantity = - 4, createdAt = 9 * msPerDay + 100\<rparr>,
         \<lparr>m_productId = ''p1'', movementType = IN, quantity = 50, createdAt = 9 * msPerDay + 200\<rparr>,
         \<lparr>m_productId = ''p2'', movementType = OUT, quantity = 2, createdAt = 9 * msPerDay + 300\<rparr>,
         \<lparr>m_productId = ''p1'', movementType = OUT, quantity = 3, createdAt = 9 * msPerDay + 400\<rparr>],
      cache = Map.empty,
      models = Map.empty\<rparr>"

definition sampleTf :: "unit tfjs" where
  "sampleTf = \<lparr>fit = (\<lambda>model inputs outputs. Inr model), predict = (\<lambda>model features. Fin 12)\<rparr>"

text \<open>
  A clock that passes midnight UTC during a call: its first two reads fall in the last
  millisecond of day 10, the later ones in day 11.
\<close>

definition midnightClock :: clock where
  "midnightClock = (\<lambda>k. if k < 2 then 11 * msPerDay - 1 else 11 * msPerDay + 1)"

text \<open>A forecast of thirty points that all predict the same demand.\<close>

definition flatForecast :: "real \<Rightarrow> ForecastResult" where
  "flatForecast q =
     \<lparr>productId = ''p1'',
      predictions = replicate 30 \<lparr>fp_date = 11, predictedDemand = Fin q, confidence = Fin 0.9,
                                  upperBound = Fin q, lowerBound = Fin q\<rparr>,
      accuracy = Fin 0.9,
      modelType = NEURAL_NETWORK\<rparr>"

text \<open>
  The point that the statistical loop builds at iteration \<open>i\<close> for a series of zeros.
\<close>

definition nanPoint :: "timeZone \<Rightarrow> clock \<Rightarrow> nat \<Rightarrow> ForecastPoint" where
  "nanPoint tz reads i =
     \<lparr>fp_date = dayOf (setDateBy tz (reads (2 * i + 1)) (int i + 1)), predictedDemand = Fin 0,
      confidence = NaN, upperBound = Fin 0, lowerBound = Fin 0\<rparr>"

section \<open>Library facts on finite inputs\<close>

lemma demand_observation [simp]:
  "demand (observation d q) = q" "date (observation d q) = d"
  by (simp_all add: observation_def)

lemma foldl_jadd_Fin: "foldl jadd (Fin a) (map Fin xs) = Fin (a + sum_list xs)"
  by (induction xs arbitrary: a) (simp_all add: add.assoc)

lemma ss_sum_Fin: "ss_sum (map Fin xs) = Fin (sum_list xs)"
  by (simp add: ss_sum_def foldl_jadd_Fin)

lemma ss_mean_Fin:
  "xs \<noteq> [] \<Longrightarrow> ss_mean (map Fin xs) = Inr (Fin (sum_list xs / of_nat (length xs)))"
  by (simp add: ss_mean_def ss_sum_Fin ofNat_def)

lemma ss_variance_Fin:
  assumes "xs \<noteq> []"
  shows "ss_variance (map Fin xs) =
     Inr (Fin (sum_list (map (\<lambda>x. (x - sum_list xs / of_nat (length xs))\<^sup>2) xs)
               / of_nat (length xs)))"
proof -
  let ?m = "sum_list xs / of_nat (length xs)"
  have "map (\<lambda>x. jmul (jsub x (Fin ?m)) (jsub x (Fin ?m))) (map Fin xs)
          = map Fin (map (\<lambda>x. (x - ?m)\<^sup>2) xs)"
    by (simp add: jsub_def power2_eq_square)
  then show ?thesis using assms
    by (simp add: ss_variance_def ss_mean_Fin ss_sum_Fin ofNat_def del: map_map)
qed

lemma ss_standardDeviation_Fin:
  assumes "xs \<noteq> []"
  shows "ss_standardDeviation (map Fin xs) =
     Inr (Fin (sqrt (sum_list (map (\<lambda>x. (x - sum_list xs / of_nat (length xs))\<^sup>2) xs)
                     / of_nat (length xs))))"
proof (cases "length xs = 1")
  case True
  then obtain x where "xs = [x]" by (cases xs) auto
  then show ?thesis by (simp add: ss_standardDeviation_def)
next
  case False
  have "0 \<le> sum_list (map (\<lambda>x. (x - sum_list xs / of_nat (length xs))\<^sup>2) xs) / of_nat (length xs)"
    by (intro divide_nonneg_nonneg sum_list_nonneg) auto
  with assms False show ?thesis
    by (simp add: ss_standardDeviation_def ss_variance_Fin)
qed

lemma demandsOf_Fin: "demandsOf series = map Fin (map (\<lambda>d. of_int (demand d)) series)"
  by (simp add: demandsOf_def ofInt_def)

lemma length_demandsOf [simp]: "length (demandsOf series) = length series"
  by (simp add: demandsOf_def)

lemma mean_demandsOf: "series \<noteq> [] \<Longrightarrow> ss_mean (demandsOf series) = Inr (Fin (histMean series))"
  unfolding demandsOf_Fin by (subst ss_mean_Fin) (simp_all add: histMean_def)

lemma stdDev_demandsOf:
  "series \<noteq> [] \<Longrightarrow> ss_standardDeviation (demandsOf series) = Inr (Fin (histStdDev series))"
  unfolding demandsOf_Fin
  by (subst ss_standardDeviation_Fin) (simp_all add: histStdDev_def histMean_def comp_def)

lemma sum_list_const_map:
  "(\<forall>d\<in>set xs. f d = (c::real)) \<Longrightarrow> sum_list (map f xs) = of_nat (length xs) * c"
  by (induction xs) (simp_all add: algebra_simps)

lemma histMean_constant:
  "series \<noteq> [] \<Longrightarrow> \<forall>d\<in>set series. demand d = c \<Longrightarrow> histMean series = of_int c"
  by (simp add: histMean_def sum_list_const_map [where c = "of_int c"])

lemma histStdDev_constant:
  assumes "series \<noteq> []" "\<forall>d\<in>set series. demand d = c"
  shows "histStdDev series = 0"
proof -
  have "sum_list (map (\<lambda>d. (of_int (demand d) - histMean series)\<^sup>2) series)
          = of_nat (length series) * 0"
    by (rule sum_list_const_map) (simp add: histMean_constant [OF assms] assms(2))
  then show ?thesis by (simp add: histStdDev_def)
qed

section \<open>Neural point confidence (claim C6)\<close>

lemma confidence_value:
  assumes "series \<noteq> []"
  shows "calculatePredictionConfidence (Fin p) series =
     Inr (Fin (max 0.3 (min 0.95
        (1 - (if histStdDev series = 0 then 0 else \<bar>p - histMean series\<bar> / histStdDev series) * 0.1))))"
  using assms
  by (simp add: calculatePredictionConfidence_def mean_demandsOf stdDev_demandsOf jeq_def jsub_def
        jmax_def jmin_def Let_def max_def min_def)

lemma two_point_series_stats:
  "histMean [observation 0 0, observation 1 2] = 1"
  "histStdDev [observation 0 0, observation 1 2] = 1"
proof -
  show m: "histMean [observation 0 0, observation 1 2] = 1"
    by (simp add: histMean_def)
  show "histStdDev [observation 0 0, observation 1 2] = 1"
    by (simp add: histStdDev_def m)
qed

text \<open>
  Claim C6, as the code has it.  For every finite predicted value and every non-empty
  historical series, the neural forecaster's point confidence is
  \<open>max(0.3, min(0.95, 1 - d * 0.1))\<close>, where \<open>d\<close> is \<open>|prediction - mean| / stdDev\<close> of the
  series when its standard deviation is not 0, and 0 when it is.  The deviation \<open>d\<close>
  is not clipped at 1, so the confidence falls below 0.9 for far predictions and reaches
  the floor 0.3.
\<close>

theorem calculatePredictionConfidence_formula:
  assumes "series \<noteq> []"
  shows "calculatePredictionConfidence (Fin p) series =
     Inr (Fin (max 0.3 (min 0.95
        (1 - (if histStdDev series = 0 then 0 else \<bar>p - histMean series\<bar> / histStdDev series) * 0.1))))"
  using assms by (rule confidence_value)

text \<open>The formula at the series of demands 0 and 2 (mean 1, deviation 1), prediction 4.\<close>

theorem calculatePredictionConfidence_formula_witness:
  "[observation 0 0, observation 1 2] \<noteq> [] \<and>
   calculatePredictionConfidence (Fin 4) [observation 0 0, observation 1 2] = Inr (Fin 0.7)"
  using calculatePredictionConfidence_formula [of "[observation 0 0, observation 1 2]" 4]
  by (simp add: two_point_series_stats)

text \<open>
  Claim C6 as the specification words it fails there: the standard deviation is
  positive, the code returns 0.7, the specification's formula gives 0.9.
\<close>

theorem spec_confidence_counterexample:
  "0 < histStdDev [observation 0 0, observation 1 2] \<and>
   calculatePredictionConfidence (Fin 4) [observation 0 0, observation 1 2]
     \<noteq> Inr (Fin (spec_confidence 4 (histMean [observation 0 0, observation 1 2])
                                   (histStdDev [observation 0 0, observation 1 2])))"
  by (simp add: confidence_value two_point_series_stats spec_confidence_def)

section \<open>Anomalies of a constant series (claim C9)\<close>

lemma anomalyLoop_zero_stdDev:
  "\<forall>i\<in>set idx. i - 7 < length demands \<Longrightarrow> anomalyLoop series demands (Fin 0) idx = Inr []"
  by (induction idx) (simp_all add: ss_mean_def jeq_def jgt_def)

lemma detectAnomaliesIn_constant:
  assumes "\<forall>d\<in>set series. demand d = c"
  shows "detectAnomaliesIn pid series = Inr \<lparr>ad_productId = pid, anomalies = []\<rparr>"
proof (cases "length series < 14")
  case True
  then show ?thesis by (simp add: detectAnomaliesIn_def Let_def)
next
  case False
  then have ne: "series \<noteq> []" by auto
  have loop: "anomalyLoop series (demandsOf series) (Fin 0) [7..<length series] = Inr []"
    by (rule anomalyLoop_zero_stdDev) auto
  show ?thesis using False
    by (simp add: detectAnomaliesIn_def Let_def mean_demandsOf [OF ne] stdDev_demandsOf [OF ne]
          histStdDev_constant [OF ne assms] loop)
qed

text \<open>
  Claim C9.  For every demand series in which every day has the same demand, whatever
  its length, the anomaly detector returns the empty anomaly sequence: the standard
  deviation is 0, the z-score of every day is taken as 0, and no day exceeds the
  threshold.
\<close>

theorem constant_series_no_anomalies:
  assumes "\<forall>d\<in>set series. demand d = c"
  shows "detectAnomaliesIn pid series = Inr \<lparr>ad_productId = pid, anomalies = []\<rparr>"
  using assms by (rule detectAnomaliesIn_constant)

text \<open>Twenty days of demand 5.\<close>

theorem constant_series_no_anomalies_witness:
  "detectAnomaliesIn ''p1'' (map (\<lambda>k. observation (int k) 5) [0..<20])
     = Inr \<lparr>ad_productId = ''p1'', anomalies = []\<rparr>"
proof -
  have "\<forall>d\<in>set (map (\<lambda>k. observation (int k) 5) [0..<20]). demand d = 5"
    by simp
  then show ?thesis by (rule constant_series_no_anomalies)
qed

section \<open>The demand series and the calendar (claim C8)\<close>

lemma length_getHistoricalDemandData [simp]:
  "length (getHistoricalDemandData tz reads w pid days) = days"
  by (simp add: getHistoricalDemandData_def Let_def)

lemma dayOf_shift: "dayOf (t + j * msPerDay) = dayOf t + j"
  by (simp add: dayOf_def msPerDay_def)

lemma getOrZero_empty [simp]: "getOrZero Map.empty d = 0"
  by (simp add: getOrZero_def)

lemma getOrZero_addMovement:
  "getOrZero (addMovement m mv) d =
     getOrZero m d + (if dayOf (createdAt mv) = d then \<bar>quantity mv\<bar> else 0)"
  by (simp add: getOrZero_def addMovement_def Let_def)

lemma getOrZero_foldl_addMovement:
  "getOrZero (foldl addMovement m mvs) d =
     getOrZero m d
       + sum_list (map (\<lambda>mv. \<bar>quantity mv\<bar>) (filter (\<lambda>mv. dayOf (createdAt mv) = d) mvs))"
  by (induction mvs arbitrary: m) (simp_all add: getOrZero_addMovement)

lemma sum_insort_key:
  "sum_list (map f (filter P (insort_key k x xs)))
     = sum_list (map (f::'a \<Rightarrow> int) (filter P (x # xs)))"
  by (induction xs) (auto simp: algebra_simps)

lemma sum_sort_key:
  "sum_list (map f (filter P (sort_key k xs))) = sum_list (map (f::'a \<Rightarrow> int) (filter P xs))"
  by (induction xs) (simp_all add: sum_insort_key)

lemma in_window:
  assumes "dayOf start - int days < dayOf t"
  shows "start - int days * msPerDay \<le> t"
proof -
  have "start < (dayOf start + 1) * msPerDay"
    unfolding dayOf_def msPerDay_def by (simp add: algebra_simps)
  moreover have "dayOf t * msPerDay \<le> t"
    unfolding dayOf_def msPerDay_def by simp
  moreover have "(dayOf start - int days + 1) * msPerDay \<le> dayOf t * msPerDay"
    using assms by (intro mult_right_mono) (simp_all add: msPerDay_def)
  ultimately show ?thesis by (simp add: algebra_simps)
qed

lemma window_demand:
  assumes "dayOf start - int days < d"
  shows "getOrZero (foldl addMovement Map.empty
            (findOutMovements w pid (start - int days * msPerDay))) d
           = outboundOnDay w pid d"
proof -
  have "filter (\<lambda>mv. dayOf (createdAt mv) = d)
          (filter (\<lambda>m. m_productId m = pid \<and> movementType m = OUT
                       \<and> start - int days * msPerDay \<le> createdAt m) (movements w))
        = filter (\<lambda>m. m_productId m = pid \<and> movementType m = OUT \<and> dayOf (createdAt m) = d)
            (movements w)"
    using assms in_window [of start days] by (auto intro!: filter_cong)
  then show ?thesis
    by (simp add: getOrZero_foldl_addMovement findOutMovements_def sum_sort_key outboundOnDay_def
          del: filter_filter)
qed

lemma setDateBy_fixed_offset:
  assumes "\<forall>t. offsetAtUTC tz t = c" "\<forall>t. offsetAtLocal tz t = c"
  shows "setDateBy tz t k = t + k * msPerDay"
  using assms by (simp add: setDateBy_def localTime_def Let_def)

text \<open>
  Where claim C8 holds.  In a time zone whose offset from UTC never changes, and when
  every clock read of the call falls on the same UTC day \<open>today\<close>, the series has one
  entry per day from \<open>today - (days - 1)\<close> to \<open>today\<close>, in ascending order, each with the
  sum of the absolute outbound quantities of its day.
\<close>

lemma gap_free_without_offset_change:
  assumes fixed: "\<forall>t. offsetAtUTC tz t = c" "\<forall>t. offsetAtLocal tz t = c"
    and sameDay: "\<forall>j. dayOf (reads j) = today"
    and k: "k < days"
  shows "date (getHistoricalDemandData tz reads w pid days ! k) = today - int days + 1 + int k"
    and "demand (getHistoricalDemandData tz reads w pid days ! k)
           = outboundOnDay w pid (today - int days + 1 + int k)"
proof -
  let ?d = "setDateBy tz (reads (Suc k)) (- int (days - Suc k))"
  have day: "dayOf ?d = today - int days + 1 + int k"
    using k sameDay by (simp add: setDateBy_fixed_offset [OF fixed] dayOf_shift)
  have start: "setDateBy tz (reads 0) (- int days) = reads 0 - int days * msPerDay"
    by (simp add: setDateBy_fixed_offset [OF fixed])
  have "date (getHistoricalDemandData tz reads w pid days ! k) = dayOf ?d"
    using k by (simp add: getHistoricalDemandData_def Let_def)
  then show "date (getHistoricalDemandData tz reads w pid days ! k) = today - int days + 1 + int k"
    by (simp only: day)
  have "demand (getHistoricalDemandData tz reads w pid days ! k)
          = getOrZero (foldl addMovement Map.empty
              (findOutMovements w pid (reads 0 - int days * msPerDay))) (dayOf ?d)"
    using k by (simp add: getHistoricalDemandData_def Let_def start)
  also have "\<dots> = outboundOnDay w pid (today - int days + 1 + int k)"
    unfolding day by (rule window_demand) (simp add: sameDay)
  finally show "demand (getHistoricalDemandData tz reads w pid days ! k)
           = outboundOnDay w pid (today - int days + 1 + int k)" .
qed

text \<open>
  The clock is read again in every pass: in UTC, a call for a window of two days that
  starts in the last millisecond of day 10 and reaches its second pass in day 11 dates
  its entries 9 and 11.
\<close>

lemma midnight_series_skips_a_day:
  "map date (getHistoricalDemandData utcZone midnightClock sampleWorld ''p1'' 2) = [9, 11]"
proof -
  have idx: "[0..<2] = [0, 1]" by (simp add: upt_rec)
  show ?thesis
    by (simp add: getHistoricalDemandData_def idx Let_def setDateBy_def localTime_def
          utcZone_def midnightClock_def dayOf_def msPerDay_def)
qed

text \<open>
  Claim C8 in Europe/London with the clock at 2026-10-26T00:30Z and a window of four
  days.  The claim asks for one entry for each of the four days 2026-10-23 to
  2026-10-26 (days 20749 to 20752), each with that day's outbound quantity.  The
  builder returns four entries, but it steps back in local time and prints UTC dates:
  the three earlier passes land at 23:30 UTC of the day before, so the entries are dated
  20748, 20749, 20750 and 20752.  No entry is dated 2026-10-25, and its outbound quantity
  of 9 is in no entry.
\<close>

theorem london_series_skips_a_day:
  "map date (getHistoricalDemandData londonZone londonClock londonWorld ''p1'' 4)
     = [20748, 20749, 20750, 20752] \<and>
   map demand (getHistoricalDemandData londonZone londonClock londonWorld ''p1'' 4)
     = [0, 0, 0, 0] \<and>
   outboundOnDay londonWorld ''p1'' 20751 = 9"
proof -
  have idx: "[0..<4] = [0, 1, 2, 3]" by (simp add: upt_rec)
  show ?thesis
    by (simp add: getHistoricalDemandData_def idx Let_def setDateBy_def localTime_def
          londonZone_def londonClock_def londonChange_def londonWorld_def findOutMovements_def
          addMovement_def getOrZero_def outboundOnDay_def dayOf_def msPerDay_def)
qed

section \<open>The statistical forecaster never completes (claim C3)\<close>

lemma getSeasonalFactor_total: "\<exists>f. getSeasonalFactor tz now i series = Inr f"
proof (cases "filter (\<lambda>d. getDay tz (date d * msPerDay)
                          = getDay tz (setDateBy tz now (int i))) series = []")
  case True
  then show ?thesis by (simp add: getSeasonalFactor_def demandsOf_def)
next
  case False
  then have "series \<noteq> []" by auto
  with False show ?thesis
    by (simp add: getSeasonalFactor_def Let_def mean_demandsOf)
qed

lemma statisticalLoop_total:
  "\<exists>points. statisticalLoop tz reads series recentAverage trend mean stdDev i left = Inr points
      \<and> length points = left"
proof (induction left arbitrary: i)
  case 0
  then show ?case by simp
next
  case (Suc left)
  obtain f where f: "getSeasonalFactor tz (reads (2 * i)) i series = Inr f"
    using getSeasonalFactor_total by blast
  obtain points where
    "statisticalLoop tz reads series recentAverage trend mean stdDev (Suc i) left = Inr points"
    "length points = left"
    using Suc.IH by blast
  then show ?case by (simp add: f Let_def)
qed

lemma statisticalPredictions_total:
  assumes "series \<noteq> []"
  shows "\<exists>points. statisticalPredictions tz reads series days = Inr points
           \<and> length points = days"
proof -
  have "drop (length (demandsOf series) - min 7 (length (demandsOf series))) (demandsOf series) \<noteq> []"
    using assms by (cases series) (auto simp: min_def)
  then obtain avg where
    "ss_mean (drop (length (demandsOf series) - min 7 (length (demandsOf series)))
        (demandsOf series)) = Inr avg"
    by (simp add: ss_mean_def)
  then show ?thesis
    using statisticalLoop_total [of tz reads series avg]
    by (simp add: statisticalPredictions_def Let_def mean_demandsOf [OF assms]
          stdDev_demandsOf [OF assms])
qed

lemma generateStatisticalForecast_throws:
  "generateStatisticalForecast tz reads pid series days =
     Inl (if series = [] then StatsError else ReferenceError ''confidence'')"
proof (cases "series = []")
  case True
  then show ?thesis
    by (simp add: generateStatisticalForecast_def statisticalPredictions_def demandsOf_def
          ss_mean_def)
next
  case False
  then obtain points where "statisticalPredictions tz reads series days = Inr points"
    using statisticalPredictions_total by blast
  with False show ?thesis by (simp add: generateStatisticalForecast_def)
qed

text \<open>
  Claim C3 at a three-day series and a horizon of one day.  The claim asks for a
  result whose \<open>accuracy\<close> is the confidence figure.  The statistical forecaster builds
  its prediction and then throws the ReferenceError of line 227 instead of returning:
  no \<open>ForecastResult\<close>, hence no \<open>accuracy\<close> field, exists.  By
  \<open>generateStatisticalForecast_throws\<close> the same holds for every non-empty series and
  every horizon.
\<close>

theorem statistical_forecast_throws_ReferenceError:
  "generateStatisticalForecast utcZone sampleClock ''p1''
     [observation 8 4, observation 9 7, observation 10 4] 1
     = Inl (ReferenceError ''confidence'')"
  by (simp add: generateStatisticalForecast_throws)

section \<open>Forecaster selection (claims C1 and C10)\<close>

lemma calculatePredictionConfidence_total:
  "series \<noteq> [] \<Longrightarrow> \<exists>c. calculatePredictionConfidence x series = Inr c"
  by (simp add: calculatePredictionConfidence_def Let_def mean_demandsOf stdDev_demandsOf)

lemma neuralLoop_total:
  assumes "series \<noteq> []"
  shows "\<exists>points. neuralLoop tf model tz reads series features i left = Inr points
           \<and> length points = left"
proof (induction left arbitrary: i features)
  case 0
  then show ?case by simp
next
  case (Suc left)
  let ?p = "jmax (Fin 0) (jround (predict tf model features))"
  obtain c where c: "calculatePredictionConfidence ?p series = Inr c"
    using calculatePredictionConfidence_total [OF assms] by blast
  obtain points where
    "neuralLoop tf model tz reads series
       (updateFeatures tz (reads (2 * i + 1)) features ?p (i + 1)) (Suc i) left = Inr points"
    "length points = left"
    using Suc.IH by blast
  then show ?case by (simp add: c Let_def)
qed

lemma length_training_inputs:
  "length (fst (prepareTrainingData series)) = length series - 10"
  by (simp add: prepareTrainingData_def)

lemma neural_without_model:
  "models w (categoryId product) = None \<Longrightarrow>
   generateNeuralNetworkForecast tf tz reads w product series days = Inl ModelNotFound"
  by (simp add: generateNeuralNetworkForecast_def)

lemma neural_fit_rejects:
  assumes "models w (categoryId product) = Some model" "20 \<le> length series"
    "fit tf model (fst (prepareTrainingData series)) (snd (prepareTrainingData series)) = Inl e"
  shows "generateNeuralNetworkForecast tf tz reads w product series days = Inl e"
proof -
  have "\<not> length series - 10 < 10" using assms(2) by simp
  with assms show ?thesis
    by (simp add: generateNeuralNetworkForecast_def length_training_inputs split_beta)
qed

lemma neural_fit_succeeds:
  assumes "models w (categoryId product) = Some model" "20 \<le> length series"
    "fit tf model (fst (prepareTrainingData series)) (snd (prepareTrainingData series))
       = Inr trained"
  shows "\<exists>f w'. generateNeuralNetworkForecast tf tz reads w product series days = Inr (f, w')
           \<and> modelType f = NEURAL_NETWORK \<and> length (predictions f) = days"
proof -
  from assms(2) have ne: "series \<noteq> []" by auto
  obtain points where
    "neuralLoop tf trained tz reads series (last (fst (prepareTrainingData series))) 0 days
       = Inr points"
    "length points = days"
    using neuralLoop_total
      [OF ne, of tf trained tz reads "last (fst (prepareTrainingData series))" 0 days]
    by auto
  moreover have "\<not> length series - 10 < 10" using assms(2) by simp
  ultimately show ?thesis using assms
    by (simp add: generateNeuralNetworkForecast_def length_training_inputs split_beta)
qed

lemma forecastFromHistory_short:
  "length series < 30 \<Longrightarrow>
   forecastFromHistory tf tz reads w pid product series days =
     Inl (if series = [] then StatsError else ReferenceError ''confidence'')"
  by (simp add: forecastFromHistory_def generateStatisticalForecast_throws)

text \<open>
  Whenever the selection returns a forecast, it is a neural one, the series has at
  least 30 observations and it yields at least 10 training windows.
\<close>

lemma forecastFromHistory_result_neural:
  assumes "forecastFromHistory tf tz reads w pid product series days = Inr (f, w')"
  shows "modelType f = NEURAL_NETWORK \<and> 30 \<le> length series
           \<and> 10 \<le> length (fst (prepareTrainingData series))"
proof -
  have long: "30 \<le> length series"
    using assms forecastFromHistory_short [of series tf tz reads w pid product days]
    by (cases "length series < 30") auto
  then have l20: "20 \<le> length series" by simp
  obtain w0 where
    n: "generateNeuralNetworkForecast tf tz reads w product series days = Inr (f, w0)"
    using assms long by (auto simp: forecastFromHistory_def split: sum.splits)
  have "modelType f = NEURAL_NETWORK"
  proof (cases "models w (categoryId product)")
    case None
    with n show ?thesis by (simp add: neural_without_model)
  next
    case (Some model)
    show ?thesis
    proof (cases "fit tf model (fst (prepareTrainingData series)) (snd (prepareTrainingData series))")
      case (Inl e)
      with Some n l20 show ?thesis by (simp add: neural_fit_rejects)
    next
      case (Inr trained)
      from neural_fit_succeeds [OF Some l20 Inr, of tz reads days] n
      show ?thesis by auto
    qed
  qed
  with long show ?thesis by (simp add: length_training_inputs)
qed

lemma forecast_is_selection:
  assumes "products w pid = Some product" and "cache w (pid, days) = None"
  shows "generateDemandForecast tf tz reads w pid days
           = forecastFromHistory tf tz (later 181 reads) w pid product
               (getHistoricalDemandData tz reads w pid 180) days"
  using assms by (simp add: generateDemandForecast_def)



text \<open>
  Claim C10, as the code has it.  For every product that resolves and every horizon
  whose forecast is not in the cache, the 180-day series has exactly 180 observations
  and yields 170 training windows, so neither statistical branch is taken and every
  forecast that is returned has model type NEURAL_NETWORK.  A forecast is returned
  when a model is registered for the product's category and fitting it succeeds; when
  no model is registered the operation raises the model-not-found error, and when
  fitting rejects it raises that rejection.
\<close>

theorem forecast_on_full_window:
  assumes "products w pid = Some product" and "cache w (pid, days) = None"
  shows "length (getHistoricalDemandData tz reads w pid 180) = 180 \<and>
         length (fst (prepareTrainingData (getHistoricalDemandData tz reads w pid 180))) = 170 \<and>
         (\<forall>f w'. generateDemandForecast tf tz reads w pid days = Inr (f, w')
                   \<longrightarrow> modelType f = NEURAL_NETWORK) \<and>
         (case models w (categoryId product) of
            None \<Rightarrow> generateDemandForecast tf tz reads w pid days = Inl ModelNotFound
          | Some model \<Rightarrow>
              (case fit tf model
                      (fst (prepareTrainingData (getHistoricalDemandData tz reads w pid 180)))
                      (snd (prepareTrainingData (getHistoricalDemandData tz reads w pid 180))) of
                 Inl e \<Rightarrow> generateDemandForecast tf tz reads w pid days = Inl e
               | Inr trained \<Rightarrow>
                   (\<exists>f w'. generateDemandForecast tf tz reads w pid days = Inr (f, w')
                       \<and> modelType f = NEURAL_NETWORK \<and> length (predictions f) = days)))"
proof -
  let ?series = "getHistoricalDemandData tz reads w pid 180"
  let ?later = "later 181 reads"
  have g: "generateDemandForecast tf tz reads w pid days
             = forecastFromHistory tf tz ?later w pid product ?series days"
    using assms by (rule forecast_is_selection)
  have ffh: "forecastFromHistory tf tz ?later w pid product ?series days =
       (case generateNeuralNetworkForecast tf tz ?later w product ?series days of
          Inl e \<Rightarrow> Inl e
        | Inr (forecast, w') \<Rightarrow>
            Inr (forecast, w'\<lparr>cache := (cache w')((pid, days) \<mapsto> forecast)\<rparr>))"
    by (simp add: forecastFromHistory_def)
  have neural: "\<forall>f w'. generateDemandForecast tf tz reads w pid days = Inr (f, w')
                  \<longrightarrow> modelType f = NEURAL_NETWORK"
    unfolding g using forecastFromHistory_result_neural by blast
  have branch: "(case models w (categoryId product) of
            None \<Rightarrow> generateDemandForecast tf tz reads w pid days = Inl ModelNotFound
          | Some model \<Rightarrow>
              (case fit tf model (fst (prepareTrainingData ?series))
                      (snd (prepareTrainingData ?series)) of
                 Inl e \<Rightarrow> generateDemandForecast tf tz reads w pid days = Inl e
               | Inr trained \<Rightarrow>
                   (\<exists>f w'. generateDemandForecast tf tz reads w pid days = Inr (f, w')
                       \<and> modelType f = NEURAL_NETWORK \<and> length (predictions f) = days)))"
  proof (cases "models w (categoryId product)")
    case None
    then show ?thesis by (simp add: g ffh neural_without_model)
  next
    case (Some model)
    have l20: "20 \<le> length ?series" by simp
    show ?thesis
    proof (cases "fit tf model (fst (prepareTrainingData ?series))
                    (snd (prepareTrainingData ?series))")
      case (Inl e)
      with Some show ?thesis by (simp add: g ffh neural_fit_rejects [OF Some l20 Inl])
    next
      case (Inr trained)
      from neural_fit_succeeds [OF Some l20 Inr, of tz ?later days]
      obtain f w' where
        "generateNeuralNetworkForecast tf tz ?later w product ?series days = Inr (f, w')"
        "modelType f = NEURAL_NETWORK" "length (predictions f) = days" by blast
      with Some Inr show ?thesis by (simp add: g ffh)
    qed
  qed
  show ?thesis using neural branch by (simp add: length_training_inputs)
qed

text \<open>The sample store once a model is registered for category \<open>c1\<close>.\<close>

theorem forecast_on_full_window_witness:
  "products (sampleWorld\<lparr>models := [''c1'' \<mapsto> ()]\<rparr>) ''p1'' = Some sampleProduct \<and>
   cache (sampleWorld\<lparr>models := [''c1'' \<mapsto> ()]\<rparr>) (''p1'', 30) = None \<and>
   (\<exists>f w'. generateDemandForecast sampleTf utcZone sampleClock
              (sampleWorld\<lparr>models := [''c1'' \<mapsto> ()]\<rparr>) ''p1'' 30 = Inr (f, w')
       \<and> modelType f = NEURAL_NETWORK \<and> length (predictions f) = 30)"
  using forecast_on_full_window
    [where w = "sampleWorld\<lparr>models := [''c1'' \<mapsto> ()]\<rparr>" and pid = "''p1''"
       and product = sampleProduct and days = 30 and tf = sampleTf and tz = utcZone
       and reads = sampleClock]
  by (simp add: sampleWorld_def sampleProduct_def sampleTf_def)

text \<open>
  Claim C10 as stated fails in the sample store: \<open>p1\<close> resolves, and its forecast is
  the model-not-found error, not a NEURAL_NETWORK result.
\<close>

theorem unregistered_model_counterexample:
  "products sampleWorld ''p1'' = Some sampleProduct \<and>
   generateDemandForecast sampleTf utcZone sampleClock sampleWorld ''p1'' 30 = Inl ModelNotFound"
  by (simp add: generateDemandForecast_def forecastFromHistory_def neural_without_model
        sampleWorld_def)

section \<open>Unknown products (claim C4)\<close>

lemma anomalyLoop_total:
  "\<forall>i\<in>set idx. i - 7 < length demands \<Longrightarrow>
   \<exists>found. anomalyLoop series demands stdDev idx = Inr found"
proof (induction idx)
  case Nil
  then show ?case by simp
next
  case (Cons i idx)
  then obtain found where "anomalyLoop series demands stdDev idx = Inr found" by auto
  moreover from Cons.prems have "take 7 (drop (i - 7) demands) \<noteq> []" by simp
  ultimately show ?case by (simp add: ss_mean_def Let_def)
qed

lemma detectAnomaliesIn_total: "\<exists>r. detectAnomaliesIn pid series = Inr r"
proof (cases "length series < 14")
  case True
  then show ?thesis by (simp add: detectAnomaliesIn_def Let_def)
next
  case False
  then have ne: "series \<noteq> []" by auto
  have "\<forall>i\<in>set [7..<length series]. i - 7 < length (demandsOf series)" by auto
  from anomalyLoop_total [OF this, of series "Fin (histStdDev series)"] obtain found where
    "anomalyLoop series (demandsOf series) (Fin (histStdDev series)) [7..<length series]
       = Inr found"
    by blast
  with False show ?thesis
    by (simp add: detectAnomaliesIn_def Let_def mean_demandsOf [OF ne] stdDev_demandsOf [OF ne])
qed

lemma no_movements_zero_series:
  assumes "\<forall>m\<in>set (movements w). m_productId m \<noteq> pid"
  shows "\<forall>d\<in>set (getHistoricalDemandData tz reads w pid n). demand d = 0"
proof -
  have "findOutMovements w pid start = []" for start
    using assms by (auto simp: findOutMovements_def filter_empty_conv)
  then show ?thesis
    by (simp add: getHistoricalDemandData_def Let_def)
qed

text \<open>
  Claim C4, as the code has it.  For every product identifier that does not resolve:
  stock optimization raises the product-not-found error; the demand forecast raises it
  when the cache holds no forecast under the identifier and horizon, and otherwise
  returns the cached forecast, since the cache is consulted before the product;
  anomaly detection looks no product up and never raises: it returns the anomalies of
  the movement series stored under the identifier, the empty sequence when no movement
  carries it.
\<close>

theorem unknown_product_outcomes:
  assumes "products w pid = None"
  shows "optimizeStockLevels tf tz reads w pid = Inl ProductNotFound \<and>
         (case cache w (pid, days) of
            None \<Rightarrow> generateDemandForecast tf tz reads w pid days = Inl ProductNotFound
          | Some cached \<Rightarrow> generateDemandForecast tf tz reads w pid days = Inr (cached, w)) \<and>
         (\<exists>r. detectAnomalies tz reads w pid = Inr r) \<and>
         ((\<forall>m\<in>set (movements w). m_productId m \<noteq> pid) \<longrightarrow>
            detectAnomalies tz reads w pid = Inr \<lparr>ad_productId = pid, anomalies = []\<rparr>)"
  using assms detectAnomaliesIn_total [of pid "getHistoricalDemandData tz reads w pid 90"]
    detectAnomaliesIn_constant
      [OF no_movements_zero_series,
       where w1 = w and pid1 = pid and pid = pid and tz1 = tz and reads1 = reads and n1 = 90]
  by (simp add: optimizeStockLevels_def generateDemandForecast_def detectAnomalies_def
        split: option.splits)

text \<open>The identifier \<open>ghost\<close> in the sample store.\<close>

theorem unknown_product_outcomes_witness:
  "products sampleWorld ''ghost'' = None \<and>
   optimizeStockLevels sampleTf utcZone sampleClock sampleWorld ''ghost'' = Inl ProductNotFound \<and>
   generateDemandForecast sampleTf utcZone sampleClock sampleWorld ''ghost'' 30
     = Inl ProductNotFound"
  using unknown_product_outcomes
    [where w = sampleWorld and pid = "''ghost''" and tf = sampleTf and tz = utcZone
       and reads = sampleClock and days = 30]
  by (simp add: sampleWorld_def)

text \<open>
  Claim C4 as stated fails for anomaly detection: \<open>ghost\<close> does not resolve, and the
  operation returns a result.
\<close>

theorem detectAnomalies_unknown_product_counterexample:
  "products sampleWorld ''ghost'' = None \<and>
   detectAnomalies utcZone sampleClock sampleWorld ''ghost''
     = Inr \<lparr>ad_productId = ''ghost'', anomalies = []\<rparr>"
proof -
  have "\<forall>m\<in>set (movements sampleWorld). m_productId m \<noteq> ''ghost''"
    by (simp add: sampleWorld_def)
  from detectAnomaliesIn_constant [OF no_movements_zero_series [OF this]]
  show ?thesis by (simp add: detectAnomalies_def sampleWorld_def)
qed

section \<open>Statistical forecast of an all-zero series (claim C2)\<close>

lemma sum_upto_real: "sum_list (map real [0..<n]) = real n * (real n - 1) / 2"
  by (induction n) (simp_all add: field_simps)

lemma sum_squares_upto_real:
  "sum_list (map (\<lambda>i. real i * real i) [0..<n]) = (real n - 1) * real n * (2 * real n - 1) / 6"
  by (induction n) (simp_all add: field_simps)

lemma slope_denominator_pos:
  assumes "2 \<le> n"
  shows "0 < real n * sum_list (map (\<lambda>i. real i * real i) [0..<n])
               - sum_list (map real [0..<n]) * sum_list (map real [0..<n])"
proof -
  have eq: "real n * ((real n - 1) * real n * (2 * real n - 1) / 6)
          - (real n * (real n - 1) / 2) * (real n * (real n - 1) / 2)
        = real n * real n * (real n - 1) * (real n + 1) / 12"
    by (simp add: field_simps)
  have pos: "0 < real n * real n * (real n - 1) * (real n + 1) / 12"
    using assms by simp
  show ?thesis
    unfolding sum_upto_real sum_squares_upto_real eq by (rule pos)
qed

lemma slr_slope_Fin:
  "slr_slope (map Fin as) (map Fin bs) =
     jdiv (Fin (real (length as) * sum_list (map (\<lambda>(a, b). a * b) (zip as bs))
                 - sum_list as * sum_list bs))
          (Fin (real (length as) * sum_list (map (\<lambda>a. a * a) as) - sum_list as * sum_list as))"
proof -
  have sq: "map (\<lambda>x. jmul x x) (map Fin as) = map Fin (map (\<lambda>a. a * a) as)"
    by simp
  have xy: "map (\<lambda>(x, y). jmul x y) (zip (map Fin as) (map Fin bs))
              = map Fin (map (\<lambda>(a, b). a * b) (zip as bs))"
    by (simp add: zip_map_map split_beta)
  show ?thesis
    unfolding slr_slope_def Let_def sq xy ss_sum_Fin
    by (simp add: ofNat_def jsub_def)
qed

lemma products_with_zeros:
  "sum_list (map (\<lambda>(a, b). a * b) (zip as (replicate n (0::real)))) = 0"
proof -
  have "map (\<lambda>(a, b). a * b) (zip as (replicate n (0::real))) = replicate (min (length as) n) 0"
    by (rule nth_equalityI) simp_all
  then show ?thesis by (simp add: sum_list_replicate)
qed

lemma calculateTrend_zeros: "calculateTrend (replicate n (Fin 0)) = Fin 0"
proof (cases "n < 2")
  case True
  then show ?thesis by (simp add: calculateTrend_def)
next
  case False
  then have n: "2 \<le> n" by simp
  have xs: "map ofNat [0..<n] = map Fin (map real [0..<n])"
    by (simp add: ofNat_def)
  have ys: "replicate n (Fin 0) = map Fin (replicate n 0)" by simp
  have "slr_slope (map Fin (map real [0..<n])) (map Fin (replicate n 0)) = Fin 0"
    unfolding slr_slope_Fin products_with_zeros
    using slope_denominator_pos [OF n] by (simp add: sum_list_replicate comp_def)
  then have "slr_slope (map ofNat [0..<n]) (replicate n (Fin 0)) = Fin 0"
    by (simp only: xs ys)
  with False show ?thesis by (simp add: calculateTrend_def)
qed

lemma demandsOf_zeros:
  "\<forall>d\<in>set series. demand d = 0 \<Longrightarrow> demandsOf series = replicate (length series) (Fin 0)"
  by (induction series) (simp_all add: demandsOf_def ofInt_def)

lemma ss_mean_zeros: "0 < n \<Longrightarrow> ss_mean (replicate n (Fin 0)) = Inr (Fin 0)"
proof -
  assume "0 < n"
  then have "ss_mean (map Fin (replicate n 0))
               = Inr (Fin (sum_list (replicate n 0) / of_nat (length (replicate n (0::real)))))"
    by (intro ss_mean_Fin) simp
  then show ?thesis by (simp add: sum_list_replicate)
qed

lemma getSeasonalFactor_zeros:
  assumes "\<forall>d\<in>set series. demand d = 0"
  shows "getSeasonalFactor tz now i series = Inr (Fin 1)"
proof (cases "filter (\<lambda>d. getDay tz (date d * msPerDay)
                          = getDay tz (setDateBy tz now (int i))) series = []")
  case True
  then show ?thesis by (simp add: getSeasonalFactor_def demandsOf_def)
next
  case False
  then have ne: "series \<noteq> []" by auto
  have "histMean series = 0" using histMean_constant [OF ne assms] by simp
  with False ne show ?thesis
    by (simp add: getSeasonalFactor_def Let_def mean_demandsOf jeq_def)
qed

lemma statisticalLoop_zeros:
  assumes "\<forall>d\<in>set series. demand d = 0"
  shows "statisticalLoop tz reads series (Fin 0) (Fin 0) (Fin 0) (Fin 0) i left
           = Inr (map (nanPoint tz reads) [i..<i + left])"
proof (induction left arbitrary: i)
  case 0
  then show ?case by simp
next
  case (Suc left)
  have "[i..<i + Suc left] = i # [Suc i..<Suc i + left]"
    by (simp add: upt_rec)
  then show ?case
    by (simp add: Suc.IH getSeasonalFactor_zeros [OF assms] Let_def ofNat_def jmax_def jsub_def
          nanPoint_def del: upt_Suc)
qed

text \<open>
  For every non-empty series of zeros and every horizon, each point the statistical
  loop builds predicts demand 0, as claim C2 says, and carries the confidence NaN,
  not 0.3.
\<close>

lemma statisticalPredictions_zeros:
  assumes "series \<noteq> []" "\<forall>d\<in>set series. demand d = 0"
  shows "statisticalPredictions tz reads series days = Inr (map (nanPoint tz reads) [0..<days])"
proof -
  have m: "histMean series = 0" using histMean_constant [OF assms] by simp
  have s: "histStdDev series = 0" by (rule histStdDev_constant [OF assms])
  have z: "demandsOf series = replicate (length series) (Fin 0)"
    by (rule demandsOf_zeros [OF assms(2)])
  have "0 < min 7 (length series)"
    using assms(1) by (cases series) simp_all
  then have r: "ss_mean (replicate (min 7 (length series)) (Fin 0)) = Inr (Fin 0)"
    by (rule ss_mean_zeros)
  show ?thesis
    using statisticalLoop_zeros [OF assms(2), of tz reads 0 days]
    by (simp add: statisticalPredictions_def Let_def mean_demandsOf [OF assms(1)]
          stdDev_demandsOf [OF assms(1)] m s)
       (simp add: z calculateTrend_zeros r)
qed

text \<open>
  Claim C2 at three days of zero demand and a horizon of two days.  The claim asks for
  predicted demand 0 and confidence 0.3 at every point.  The loop of the statistical
  forecaster predicts demand 0, but line 209 divides the standard deviation 0 by the
  mean 0 without a guard: the quotient is NaN, \<open>Math.max(0.3, NaN)\<close> is NaN, and so is
  the rounded confidence stored in each point.
\<close>

theorem zero_series_confidence_is_NaN:
  "statisticalPredictions utcZone sampleClock
     [observation 8 0, observation 9 0, observation 10 0] 2 =
     Inr [\<lparr>fp_date = 11, predictedDemand = Fin 0, confidence = NaN,
           upperBound = Fin 0, lowerBound = Fin 0\<rparr>,
          \<lparr>fp_date = 12, predictedDemand = Fin 0, confidence = NaN,
           upperBound = Fin 0, lowerBound = Fin 0\<rparr>]"
proof -
  have "[0..<2] = [0, Suc 0]" by (simp add: upt_rec)
  then show ?thesis
    by (simp add: statisticalPredictions_zeros nanPoint_def setDateBy_def localTime_def
          utcZone_def sampleClock_def sampleNow_def dayOf_def msPerDay_def)
qed

section \<open>Stock optimizer outputs (claims C5 and C7)\<close>

lemma foldl_predicted:
  "foldl (\<lambda>sum p. jadd sum (predictedDemand p)) a points = foldl jadd a (map predictedDemand points)"
  by (induction points arbitrary: a) simp_all

lemma finite_list: "\<forall>x\<in>set xs. isFinite x \<Longrightarrow> xs = map Fin (map finVal xs)"
proof (induction xs)
  case Nil
  then show ?case by simp
next
  case (Cons x xs)
  then show ?case by (cases x) simp_all
qed

lemma finiteNonneg_isFinite: "finiteNonneg x \<Longrightarrow> isFinite x \<and> 0 \<le> finVal x"
  by (cases x) simp_all

lemma predicted_values:
  assumes "\<forall>p\<in>set points. isFinite (predictedDemand p)"
  shows "map predictedDemand points = map Fin (demandValues points)"
proof -
  have "\<forall>x\<in>set (map predictedDemand points). isFinite x" using assms by simp
  from finite_list [OF this] show ?thesis by (simp add: demandValues_def comp_def)
qed

lemma averageDailyDemand_Fin:
  assumes "\<forall>p\<in>set points. isFinite (predictedDemand p)"
  shows "averageDailyDemand points = Fin (sum_list (demandValues points) / 30)"
  by (simp add: averageDailyDemand_def foldl_predicted predicted_values [OF assms] foldl_jadd_Fin)

lemma variability_Fin:
  assumes "\<forall>p\<in>set points. isFinite (predictedDemand p)" "points \<noteq> []"
  shows "\<exists>v\<ge>0. calculateDemandVariability points = Inr (Fin v)"
proof -
  let ?xs = "demandValues points"
  let ?v = "sqrt (sum_list (map (\<lambda>x. (x - sum_list ?xs / of_nat (length ?xs))\<^sup>2) ?xs)
                  / of_nat (length ?xs))"
  have "?xs \<noteq> []" using assms(2) by (simp add: demandValues_def)
  from ss_standardDeviation_Fin [OF this]
  have "calculateDemandVariability points = Inr (Fin ?v)"
    by (simp add: calculateDemandVariability_def predicted_values [OF assms(1)])
  moreover have "0 \<le> ?v"
    by (intro real_sqrt_ge_zero divide_nonneg_nonneg sum_list_nonneg) auto
  ultimately show ?thesis by blast
qed

lemma floor_half_nonneg: "0 \<le> (x::real) \<Longrightarrow> 0 \<le> real_of_int \<lfloor>x + 1 / 2\<rfloor>"
  by simp

text \<open>
  When every predicted demand is finite, the holding cost is not 0 and the quotient of
  total demand and holding cost is not negative, every number of the result is finite;
  optimal stock and savings are then not negative, and neither is the reorder point
  when the total demand is not.
\<close>

lemma optimizer_finite:
  assumes fin: "\<forall>p\<in>set (predictions forecast). isFinite (predictedDemand p)"
    and ne: "predictions forecast \<noteq> []"
    and h: "holdingCostOf product \<noteq> 0"
    and sign: "0 \<le> sum_list (demandValues (predictions forecast)) / holdingCostOf product"
  shows "\<exists>a b c r. optimizeFromForecast pid product forecast =
            Inr \<lparr>o_productId = pid, currentStock = p_currentStock product, optimalStock = Fin a,
                 reorderPoint = Fin b, expectedSavings = Fin c, riskLevel = r\<rparr>
          \<and> 0 \<le> a \<and> 0 \<le> c \<and> (0 \<le> sum_list (demandValues (predictions forecast)) \<longrightarrow> 0 \<le> b)
          \<and> (sum_list (demandValues (predictions forecast)) = 0 \<longrightarrow> r = LOW)"
proof -
  let ?S = "sum_list (demandValues (predictions forecast))"
  let ?h = "holdingCostOf product"
  obtain v where v: "0 \<le> v" "calculateDemandVariability (predictions forecast) = Inr (Fin v)"
    using variability_Fin [OF fin ne] by blast
  have hc: "(case unitPrice product of Some price \<Rightarrow> jmul (Fin price) (Fin 0.25) | None \<Rightarrow> Fin 10)
              = Fin ?h"
    by (simp add: holdingCostOf_def split: option.splits)
  have arg: "0 \<le> 2 * (?S / 30 * 365) * 50 / ?h"
  proof -
    have "2 * (?S / 30 * 365) * 50 / ?h = (?S / ?h) * (2 * 365 * 50 / 30)" by simp
    also have "0 \<le> \<dots>" using sign by simp
    finally show ?thesis .
  qed
  define eoq where "eoq = sqrt (2 * (?S / 30 * 365) * 50 / ?h)"
  have eoq: "jsqrt (jdiv (jmul (jmul (Fin 2) (jmul (Fin (?S / 30)) (Fin 365))) (Fin 50)) (Fin ?h))
               = Fin eoq"
    using h arg by (simp add: eoq_def)
  have eoq0: "0 \<le> eoq" using arg by (simp add: eoq_def)
  define safety where "safety = 1.645 * sqrt 7 * v"
  have safety: "jmul (jmul (Fin 1.645) (jsqrt (Fin 7))) (Fin v) = Fin safety"
    by (simp add: safety_def)
  have safety0: "0 \<le> safety" using v(1) by (simp add: safety_def)
  define cur where "cur = real_of_int (p_currentStock product) * ?h / 365 * 30"
  define opt where "opt = (eoq + safety) * ?h / 365 * 30"
  define sav where "sav = max 0 (cur - opt)"
  have sav: "jmax (Fin 0)
               (jsub (jmul (jdiv (jmul (ofInt (p_currentStock product)) (Fin ?h)) (Fin 365)) (Fin 30))
                     (jmul (jdiv (jmul (jadd (Fin eoq) (Fin safety)) (Fin ?h)) (Fin 365)) (Fin 30)))
               = Fin sav"
    by (simp add: sav_def cur_def opt_def jmax_def jsub_def ofInt_def max_def)
  have sav0: "0 \<le> sav" by (simp add: sav_def)
  have risk0: "?S = 0 \<Longrightarrow>
      calculateStockoutRisk (ofInt (p_currentStock product)) (Fin (?S / 30)) (Fin v) = Fin 0"
    by (simp add: calculateStockoutRisk_def jeq_def)
  have val: "optimizeFromForecast pid product forecast =
     Inr \<lparr>o_productId = pid, currentStock = p_currentStock product,
          optimalStock = Fin (of_int \<lfloor>eoq + safety + 1 / 2\<rfloor>),
          reorderPoint = Fin (of_int \<lfloor>?S / 30 * 7 + safety + 1 / 2\<rfloor>),
          expectedSavings = Fin (of_int \<lfloor>sav * 100 + 1 / 2\<rfloor> / 100),
          riskLevel =
            (let risk = calculateStockoutRisk (ofInt (p_currentStock product)) (Fin (?S / 30)) (Fin v)
             in if jgt risk (Fin 0.2) then HIGH else if jgt risk (Fin 0.1) then MEDIUM else LOW)\<rparr>"
    unfolding optimizeFromForecast_def Let_def averageDailyDemand_Fin [OF fin] hc v(2) eoq
      sum.case safety sav
    by simp
  have a0: "0 \<le> real_of_int \<lfloor>eoq + safety + 1 / 2\<rfloor>"
    using eoq0 safety0 by (intro floor_half_nonneg) simp
  have b0: "0 \<le> ?S \<longrightarrow> 0 \<le> real_of_int \<lfloor>?S / 30 * 7 + safety + 1 / 2\<rfloor>"
    using safety0 by (auto intro!: floor_half_nonneg)
  have c0: "0 \<le> real_of_int \<lfloor>sav * 100 + 1 / 2\<rfloor> / 100"
    using sav0 by (intro divide_nonneg_nonneg floor_half_nonneg) simp_all
  have r0: "?S = 0 \<longrightarrow>
      (let risk = calculateStockoutRisk (ofInt (p_currentStock product)) (Fin (?S / 30)) (Fin v)
       in if jgt risk (Fin 0.2) then HIGH else if jgt risk (Fin 0.1) then MEDIUM else LOW) = LOW"
    using risk0 by (simp add: jgt_def)
  from val a0 b0 c0 r0 show ?thesis by blast
qed

lemma jge_nonneg: "0 \<le> a \<Longrightarrow> jge (Fin a) (Fin 0)"
  by (auto simp: jge_def jgt_def jeq_def)

lemma flat_average: "averageDailyDemand (predictions (flatForecast q)) = Fin q"
proof -
  have "averageDailyDemand (predictions (flatForecast q))
          = Fin (sum_list (demandValues (predictions (flatForecast q))) / 30)"
    by (rule averageDailyDemand_Fin) (simp add: flatForecast_def)
  then show ?thesis by (simp add: demandValues_def flatForecast_def sum_list_replicate)
qed

lemma flat_variability: "calculateDemandVariability (predictions (flatForecast q)) = Inr (Fin 0)"
proof -
  have "ss_standardDeviation (map Fin (replicate 30 q)) =
     Inr (Fin (sqrt (sum_list (map (\<lambda>x. (x - sum_list (replicate 30 q)
                                              / of_nat (length (replicate 30 q)))\<^sup>2)
                        (replicate 30 q)) / of_nat (length (replicate 30 q)))))"
    by (rule ss_standardDeviation_Fin) simp
  then show ?thesis
    by (simp add: calculateDemandVariability_def flatForecast_def sum_list_replicate)
qed

lemma foldl_jadd_not_finite: "\<not> isFinite a \<Longrightarrow> \<not> isFinite (foldl jadd a xs)"
proof (induction xs arbitrary: a)
  case Nil
  then show ?case by simp
next
  case (Cons x xs)
  from Cons.prems have "\<not> isFinite (jadd a x)" by (cases a; cases x) simp_all
  then show ?case using Cons.IH by simp
qed

lemma foldl_jadd_finite: "isFinite (foldl jadd a xs) \<Longrightarrow> \<forall>x\<in>set xs. isFinite x"
proof (induction xs arbitrary: a)
  case Nil
  then show ?case by simp
next
  case (Cons x xs)
  have f: "isFinite (jadd a x)"
  proof (rule ccontr)
    assume "\<not> isFinite (jadd a x)"
    from foldl_jadd_not_finite [OF this, of xs] Cons.prems show False by simp
  qed
  then have "isFinite x" by (cases a; cases x) simp_all
  moreover have "\<forall>y\<in>set xs. isFinite y"
    using Cons.IH [of "jadd a x"] Cons.prems by simp
  ultimately show ?case by simp
qed

lemma zero_average:
  assumes "averageDailyDemand points = Fin 0"
  shows "(\<forall>p\<in>set points. isFinite (predictedDemand p)) \<and> sum_list (demandValues points) = 0"
proof -
  let ?X = "foldl jadd (Fin 0) (map predictedDemand points)"
  have d: "jdiv ?X (Fin 30) = Fin 0"
    using assms by (simp add: averageDailyDemand_def foldl_predicted)
  then have "isFinite ?X" by (cases ?X) simp_all
  then have fin: "\<forall>p\<in>set points. isFinite (predictedDemand p)"
    using foldl_jadd_finite [of "Fin 0" "map predictedDemand points"] by simp
  from averageDailyDemand_Fin [OF fin] assms show ?thesis using fin by simp
qed

text \<open>
  Claim C5, as the code has it.  For every product whose unit price is absent or
  positive and every 30-day forecast whose predicted demands are finite and not
  negative, the stock optimizer returns a result with \<open>optimalStock \<ge> 0\<close>,
  \<open>reorderPoint \<ge> 0\<close> and \<open>expectedSavings \<ge> 0\<close>.
\<close>

theorem optimizer_outputs_nonnegative:
  assumes "unitPrice product = None \<or> (\<exists>price>0. unitPrice product = Some price)"
    and "length (predictions forecast) = 30"
    and "\<forall>p\<in>set (predictions forecast). finiteNonneg (predictedDemand p)"
  shows "\<exists>result. optimizeFromForecast pid product forecast = Inr result
           \<and> jge (optimalStock result) (Fin 0)
           \<and> jge (reorderPoint result) (Fin 0)
           \<and> jge (expectedSavings result) (Fin 0)"
proof -
  have fin: "\<forall>p\<in>set (predictions forecast). isFinite (predictedDemand p)"
    using assms(3) finiteNonneg_isFinite by blast
  have ne: "predictions forecast \<noteq> []" using assms(2) by auto
  have h: "0 < holdingCostOf product"
    using assms(1) by (auto simp: holdingCostOf_def)
  have S: "0 \<le> sum_list (demandValues (predictions forecast))"
    unfolding demandValues_def using assms(3) finiteNonneg_isFinite
    by (intro sum_list_nonneg) auto
  from h S have "0 \<le> sum_list (demandValues (predictions forecast)) / holdingCostOf product"
    by simp
  from optimizer_finite [OF fin ne _ this, of pid] h S
  show ?thesis by (auto simp: jge_nonneg)
qed

text \<open>The sample product (unit price 8) and thirty days of predicted demand 10.\<close>

theorem optimizer_outputs_nonnegative_witness:
  "length (predictions (flatForecast 10)) = 30 \<and>
   (\<exists>result. optimizeFromForecast ''p1'' sampleProduct (flatForecast 10) = Inr result
           \<and> jge (optimalStock result) (Fin 0)
           \<and> jge (reorderPoint result) (Fin 0)
           \<and> jge (expectedSavings result) (Fin 0))"
proof -
  have price: "unitPrice sampleProduct = None \<or> (\<exists>price>0. unitPrice sampleProduct = Some price)"
    by (simp add: sampleProduct_def)
  have days: "length (predictions (flatForecast 10)) = 30"
    by (simp add: flatForecast_def)
  have demands: "\<forall>p\<in>set (predictions (flatForecast 10)). finiteNonneg (predictedDemand p)"
    by (simp add: flatForecast_def)
  from optimizer_outputs_nonnegative [OF price days demands, of "''p1''"] days
  show ?thesis by simp
qed

text \<open>
  Claim C5 as stated fails for a product that resolves with a unit price that is not
  positive.  With the price \<open>-4\<close> the holding cost is \<open>-1\<close>, the economic order quantity
  is the square root of a negative number, and \<open>optimalStock\<close> and \<open>expectedSavings\<close>
  are NaN; with the price 0 the holding cost is 0, \<open>optimalStock\<close> is infinite and
  \<open>expectedSavings\<close> is NaN.  NaN is not \<open>\<ge> 0\<close>.
\<close>

theorem nonpositive_price_counterexample:
  "optimizeFromForecast ''p1'' (sampleProduct\<lparr>unitPrice := Some (- 4)\<rparr>) (flatForecast 10) =
     Inr \<lparr>o_productId = ''p1'', currentStock = 100, optimalStock = NaN, reorderPoint = Fin 70,
          expectedSavings = NaN, riskLevel = LOW\<rparr> \<and>
   optimizeFromForecast ''p1'' (sampleProduct\<lparr>unitPrice := Some 0\<rparr>) (flatForecast 10) =
     Inr \<lparr>o_productId = ''p1'', currentStock = 100, optimalStock = PosInf, reorderPoint = Fin 70,
          expectedSavings = NaN, riskLevel = LOW\<rparr> \<and>
   \<not> jge NaN (Fin 0)"
  by (simp add: optimizeFromForecast_def flat_average flat_variability sampleProduct_def
        calculateStockoutRisk_def jeq_def jgt_def jge_def jmax_def jmin_def jsub_def ofInt_def
        signedInf_def)

text \<open>
  Claim C7, as the code has it.  For every non-empty forecast whose average daily
  demand is 0 and every product whose unit price is absent or not 0, the stockout risk
  evaluates to 0, the risk level is LOW, and the optimal stock, the reorder point and
  the expected savings of the returned result are finite numbers.
\<close>

theorem zero_demand_optimization_finite:
  assumes "averageDailyDemand (predictions forecast) = Fin 0"
    and "predictions forecast \<noteq> []"
    and "unitPrice product \<noteq> Some 0"
  shows "(\<forall>stock variability.
            calculateStockoutRisk stock (averageDailyDemand (predictions forecast)) variability = Fin 0)
         \<and> (\<exists>result. optimizeFromForecast pid product forecast = Inr result
               \<and> riskLevel result = LOW
               \<and> isFinite (optimalStock result)
               \<and> isFinite (reorderPoint result)
               \<and> isFinite (expectedSavings result))"
proof -
  from zero_average [OF assms(1)]
  have fin: "\<forall>p\<in>set (predictions forecast). isFinite (predictedDemand p)"
    and S: "sum_list (demandValues (predictions forecast)) = 0" by simp_all
  have h: "holdingCostOf product \<noteq> 0"
    using assms(3) by (auto simp: holdingCostOf_def split: option.splits)
  have "0 \<le> sum_list (demandValues (predictions forecast)) / holdingCostOf product"
    by (simp add: S)
  from optimizer_finite [OF fin assms(2) h this, of pid] S
  have "\<exists>result. optimizeFromForecast pid product forecast = Inr result
               \<and> riskLevel result = LOW
               \<and> isFinite (optimalStock result)
               \<and> isFinite (reorderPoint result)
               \<and> isFinite (expectedSavings result)"
    by auto
  then show ?thesis
    by (simp add: assms(1) calculateStockoutRisk_def jeq_def)
qed

text \<open>The sample product and thirty days of predicted demand 0.\<close>

theorem zero_demand_optimization_finite_witness:
  "averageDailyDemand (predictions (flatForecast 0)) = Fin 0 \<and>
   predictions (flatForecast 0) \<noteq> [] \<and> unitPrice sampleProduct \<noteq> Some 0 \<and>
   calculateStockoutRisk (Fin 100) (averageDailyDemand (predictions (flatForecast 0))) (Fin 0)
     = Fin 0 \<and>
   (\<exists>result. optimizeFromForecast ''p1'' sampleProduct (flatForecast 0) = Inr result
           \<and> riskLevel result = LOW
           \<and> isFinite (optimalStock result)
           \<and> isFinite (reorderPoint result)
           \<and> isFinite (expectedSavings result))"
proof -
  have a: "averageDailyDemand (predictions (flatForecast 0)) = Fin 0" by (rule flat_average)
  have b: "predictions (flatForecast 0) \<noteq> []" by (simp add: flatForecast_def)
  have c: "unitPrice sampleProduct \<noteq> Some 0" by (simp add: sampleProduct_def)
  from zero_demand_optimization_finite [OF a b c, of "''p1''"] a b c show ?thesis by simp
qed

text \<open>
  Claim C7 as stated fails for a product with the unit price 0: the average daily
  demand is 0, the holding cost is 0, line 439 divides 0 by 0, and the NaN reaches
  \<open>optimalStock\<close> and \<open>expectedSavings\<close> of the returned result.
\<close>

theorem zero_price_zero_demand_counterexample:
  "averageDailyDemand (predictions (flatForecast 0)) = Fin 0 \<and>
   optimizeFromForecast ''p1'' (sampleProduct\<lparr>unitPrice := Some 0\<rparr>) (flatForecast 0) =
     Inr \<lparr>o_productId = ''p1'', currentStock = 100, optimalStock = NaN, reorderPoint = Fin 0,
          expectedSavings = NaN, riskLevel = LOW\<rparr>"
  by (simp add: optimizeFromForecast_def flat_average flat_variability sampleProduct_def
        calculateStockoutRisk_def jeq_def jgt_def jmax_def jmin_def jsub_def ofInt_def)

end
